theory Spec2Isabelle
  imports Complex_Main "HOL-Library.Sublist"
begin

section \<open>JavaScript values thrown and caught by the synchroniser\<close>

text \<open>
  The error paths of the action inspect thrown values of type \<open>unknown\<close>: whether the
  value is an \<open>Error\<close> instance, a string, or an object carrying \<open>status\<close>, \<open>code\<close>,
  \<open>message\<close> or \<open>stack\<close> properties, and they convert such values with \<open>String\<close>,
  \<open>Number\<close> and \<open>JSON.stringify\<close>.  A value is a primitive (undefined, null, a boolean,
  a number, a string, a symbol with its description, a BigInt) or an object: its
  prototype and its own data properties in order, whose values are values again.  The
  prototype is \<open>Object.prototype\<close>, \<open>Error.prototype\<close> (or that of a class derived from
  \<open>Error\<close>), or none, as in \<open>Object.create(null)\<close>.  Inside an object, \<open>JCycle n\<close> is a
  reference back to the object \<open>n\<close> levels further out, \<open>0\<close> being the object that holds
  the property: the circular structures.  A number is a finite one, \<open>NaN\<close> or an
  infinity.  Functions, arrays, accessor properties and objects that bring conversion
  methods of their own are not values of this type.
\<close>

datatype jsnum = Finite rat | NaN | PosInfinity | NegInfinity

datatype proto = ObjectPrototype | ErrorPrototype | NullPrototype

datatype jsval =
    JUndefined
  | JNull
  | JBool bool
  | JNum jsnum
  | JStr string
  | JSymbol string
  | JBigInt int
  | JObj proto "(string \<times> jsval) list"
  | JCycle nat

definition digit_char :: "nat \<Rightarrow> char" where
  "digit_char d = char_of (48 + d)"

fun show_nat :: "nat \<Rightarrow> string" where
  "show_nat n = (if n < 10 then [digit_char n] else show_nat (n div 10) @ [digit_char (n mod 10)])"

declare show_nat.simps [simp del]

definition show_int :: "int \<Rightarrow> string" where
  "show_int i = (if i < 0 then CHR ''-'' # show_nat (nat (- i)) else show_nat (nat i))"

text \<open>
  \<open>new Error(msg)\<close>: an \<open>Error\<close> instance with the own properties \<open>message\<close> and
  \<open>stack\<close>; of the stack, the first line is kept.  \<open>new_TypeError\<close> is the error that the
  runtime throws when a conversion fails.
\<close>

definition new_Error :: "string \<Rightarrow> jsval" where
  "new_Error msg = JObj ErrorPrototype [(''message'', JStr msg), (''stack'', JStr (''Error: '' @ msg))]"

definition new_TypeError :: "string \<Rightarrow> jsval" where
  "new_TypeError msg =
     JObj ErrorPrototype [(''message'', JStr msg), (''stack'', JStr (''TypeError: '' @ msg))]"

section \<open>Change and operation records (types.d.ts)\<close>

datatype ChangeType = Create | Update | Delete
datatype ChangeSource = Repo | Wiki
datatype ChangeDirection = RepoToWiki | WikiToRepo

record SyncOperation =
  op_type :: ChangeType
  op_path :: string
  op_content :: "string option"
  op_previousContent :: "string option"

section \<open>PartialFailureHandler (transaction-manager)\<close>

record PartialFailureHandler =
  continueOnError :: bool
  maxFailureThreshold :: int
  successfulOperations :: "SyncOperation list"
  failedOperations :: "(SyncOperation \<times> jsval) list"

text \<open>The constructor; its defaults are \<open>continueOnError = true\<close>, \<open>maxFailureThreshold = 10\<close>.\<close>

definition new_PartialFailureHandler :: "bool \<Rightarrow> int \<Rightarrow> PartialFailureHandler" where
  "new_PartialFailureHandler c n =
     \<lparr> continueOnError = c, maxFailureThreshold = n,
       successfulOperations = [], failedOperations = [] \<rparr>"

definition default_PartialFailureHandler :: PartialFailureHandler where
  "default_PartialFailureHandler = new_PartialFailureHandler True 10"

definition recordSuccess :: "PartialFailureHandler \<Rightarrow> SyncOperation \<Rightarrow> PartialFailureHandler" where
  "recordSuccess h operation = h\<lparr> successfulOperations := successfulOperations h @ [operation] \<rparr>"

definition threshold_exceeded :: "int \<Rightarrow> jsval" where
  "threshold_exceeded n =
     new_Error (''Maximum failure threshold ('' @ show_int n @ '') exceeded. Aborting operation.'')"

text \<open>
  \<open>recordFailure\<close> pushes first and compares afterwards, so the handler keeps the new
  entry also when the call throws.
\<close>

definition recordFailure ::
  "PartialFailureHandler \<Rightarrow> SyncOperation \<Rightarrow> jsval \<Rightarrow> (jsval + unit) \<times> PartialFailureHandler" where
  "recordFailure h operation error =
     (let h' = h\<lparr> failedOperations := failedOperations h @ [(operation, error)] \<rparr>
      in if int (length (failedOperations h')) > maxFailureThreshold h'
         then (Inl (threshold_exceeded (maxFailureThreshold h')), h')
         else (Inr (), h'))"

definition shouldContinue :: "PartialFailureHandler \<Rightarrow> bool" where
  "shouldContinue h \<longleftrightarrow>
     continueOnError h \<and> int (length (failedOperations h)) \<le> maxFailureThreshold h"

text \<open>A sequence of \<open>recordFailure\<close> calls on one handler, with the outcome of each call.\<close>

fun recordFailures ::
  "PartialFailureHandler \<Rightarrow> (SyncOperation \<times> jsval) list \<Rightarrow> (jsval + unit) list \<times> PartialFailureHandler" where
  "recordFailures h [] = ([], h)"
| "recordFailures h (f # fs) =
     (let (r, h') = recordFailure h (fst f) (snd f);
          (rs, h'') = recordFailures h' fs
      in (r # rs, h''))"

section \<open>Conversions of the JavaScript runtime\<close>

text \<open>
  The code converts with \<open>String(v)\<close>, \<open>Number(v)\<close>, template literals, \<open>RegExp.test\<close> and
  \<open>JSON.stringify\<close>.  What these do on a primitive other than a number or a numeric
  string is written out below.  The algorithms of the language that the code only calls
  are parameters: the text of a finite number, the number read from a string, the number
  nearest to a BigInt, the conversion of an object to text and to a number (which
  consults the prototype chain and may throw), and \<open>JSON.stringify\<close> (which throws on a
  circular structure and on a BigInt).  A conversion that throws gives \<open>Inl\<close> the message
  of the error thrown; the error is a \<open>TypeError\<close> (a conversion that recurses without
  end throws a \<open>RangeError\<close>, which differs in its name only).
\<close>

record Coercions =
  number_text :: "rat \<Rightarrow> string"
  text_number :: "string \<Rightarrow> jsnum"
  bigint_number :: "int \<Rightarrow> jsnum"
  object_text :: "jsval \<Rightarrow> string + string"
  object_number :: "jsval \<Rightarrow> string + jsnum"
  json_text :: "jsval \<Rightarrow> string + string"

fun num_text :: "Coercions \<Rightarrow> jsnum \<Rightarrow> string" where
  "num_text js (Finite r) = number_text js r"
| "num_text js NaN = ''NaN''"
| "num_text js PosInfinity = ''Infinity''"
| "num_text js NegInfinity = ''-Infinity''"

text \<open>\<open>String(v)\<close>, which prints a symbol.\<close>

definition js_String :: "Coercions \<Rightarrow> jsval \<Rightarrow> string + string" where
  "js_String js v =
     (case v of
        JUndefined \<Rightarrow> Inr ''undefined''
      | JNull \<Rightarrow> Inr ''null''
      | JBool b \<Rightarrow> Inr (if b then ''true'' else ''false'')
      | JNum n \<Rightarrow> Inr (num_text js n)
      | JStr s \<Rightarrow> Inr s
      | JSymbol description \<Rightarrow> Inr (''Symbol('' @ description @ '')'')
      | JBigInt i \<Rightarrow> Inr (show_int i)
      | JObj p ps \<Rightarrow> object_text js v
      | JCycle n \<Rightarrow> object_text js v)"

text \<open>
  The conversion to text of a template literal and of \<open>RegExp.test\<close>, which throws on a
  symbol.
\<close>

definition js_ToString :: "Coercions \<Rightarrow> jsval \<Rightarrow> string + string" where
  "js_ToString js v =
     (case v of
        JSymbol description \<Rightarrow> Inl ''Cannot convert a Symbol value to a string''
      | _ \<Rightarrow> js_String js v)"

text \<open>\<open>Number(v)\<close>\<close>

definition js_Number :: "Coercions \<Rightarrow> jsval \<Rightarrow> string + jsnum" where
  "js_Number js v =
     (case v of
        JUndefined \<Rightarrow> Inr NaN
      | JNull \<Rightarrow> Inr (Finite 0)
      | JBool b \<Rightarrow> Inr (Finite (if b then 1 else 0))
      | JNum n \<Rightarrow> Inr n
      | JStr s \<Rightarrow> Inr (text_number js s)
      | JSymbol description \<Rightarrow> Inl ''Cannot convert a Symbol value to a number''
      | JBigInt i \<Rightarrow> Inr (bigint_number js i)
      | JObj p ps \<Rightarrow> object_number js v
      | JCycle n \<Rightarrow> object_number js v)"

text \<open>A conversion as a step of the code: its failure is a thrown \<open>TypeError\<close>.\<close>

definition completion :: "string + 'a \<Rightarrow> jsval + 'a" where
  "completion r = (case r of Inl msg \<Rightarrow> Inl (new_TypeError msg) | Inr a \<Rightarrow> Inr a)"

text \<open>\<open>k in obj\<close> and \<open>obj.k\<close> on the own properties of an object.\<close>

definition has_prop :: "string \<Rightarrow> (string \<times> jsval) list \<Rightarrow> bool" where
  "has_prop k ps = (map_of ps k \<noteq> None)"

definition get_prop :: "string \<Rightarrow> (string \<times> jsval) list \<Rightarrow> jsval" where
  "get_prop k ps = (case map_of ps k of Some v \<Rightarrow> v | None \<Rightarrow> JUndefined)"

text \<open>
  \<open>error.message\<close> of an \<open>Error\<close> instance: the own property, else the empty string
  inherited from \<open>Error.prototype\<close>.
\<close>

definition error_message :: "(string \<times> jsval) list \<Rightarrow> jsval" where
  "error_message ps = (if has_prop ''message'' ps then get_prop ''message'' ps else JStr [])"

section \<open>Regular expressions of the error patterns\<close>

text \<open>
  Every pattern of \<open>ERROR_PATTERNS\<close> is an alternation of literal words under the \<open>i\<close>
  flag, so \<open>pattern.test(message)\<close> asks whether one of the words occurs in the message,
  letters compared without case.
\<close>

definition to_lower :: "char \<Rightarrow> char" where
  "to_lower c = (let n = (of_char c :: nat) in if 65 \<le> n \<and> n \<le> 90 then char_of (n + 32) else c)"

fun starts_with :: "string \<Rightarrow> string \<Rightarrow> bool" where
  "starts_with [] s = True"
| "starts_with (p # ps) [] = False"
| "starts_with (p # ps) (c # cs) = (p = c \<and> starts_with ps cs)"

fun contains :: "string \<Rightarrow> string \<Rightarrow> bool" where
  "contains p [] = (p = [])"
| "contains p (c # cs) = (starts_with p (c # cs) \<or> contains p cs)"

definition contains_ci :: "string \<Rightarrow> string \<Rightarrow> bool" where
  "contains_ci word s = contains (map to_lower word) (map to_lower s)"

definition regex_test :: "string list \<Rightarrow> string \<Rightarrow> bool" where
  "regex_test alternatives s = list_ex (\<lambda>word. contains_ci word s) alternatives"

section \<open>ErrorHandler (error-handler.ts)\<close>

datatype ErrorType =
    RATE_LIMIT | AUTH_ERROR | FILE_NOT_FOUND | NETWORK_ERROR | CONFLICT | VALIDATION_ERROR | UNKNOWN

text \<open>
  The \<open>message\<close> of an \<open>ErrorContext\<close> is declared a string; for an \<open>Error\<close> instance it is
  the \<open>message\<close> property as it is, whatever its type.
\<close>

record ErrorContext =
  ctx_type :: ErrorType
  ctx_message :: jsval
  ctx_details :: jsval
  retryable :: bool
  fatal :: bool

definition ERROR_PATTERNS :: "(string list \<times> ErrorType) list" where
  "ERROR_PATTERNS =
     [ ([''rate limit''], RATE_LIMIT),
       ([''403'', ''forbidden''], RATE_LIMIT),
       ([''401'', ''unauthorized''], AUTH_ERROR),
       ([''enoent'', ''not found''], FILE_NOT_FOUND),
       ([''network'', ''timeout'', ''econnrefused''], NETWORK_ERROR),
       ([''conflict''], CONFLICT) ]"

definition getErrorMessage :: "Coercions \<Rightarrow> jsval \<Rightarrow> jsval + jsval" where
  "getErrorMessage js error =
     (case error of
        JObj ErrorPrototype ps \<Rightarrow> Inr (error_message ps)
      | JStr s \<Rightarrow> Inr (JStr s)
      | JObj p ps \<Rightarrow>
          if has_prop ''message'' ps
          then map_sum id JStr (completion (js_String js (get_prop ''message'' ps)))
          else map_sum id JStr (completion (js_String js error))
      | _ \<Rightarrow> map_sum id JStr (completion (js_String js error)))"

text \<open>The loop over \<open>ERROR_PATTERNS\<close>: the first pattern that matches decides.\<close>

fun first_pattern :: "(string list \<times> ErrorType) list \<Rightarrow> string \<Rightarrow> ErrorType" where
  "first_pattern [] message = UNKNOWN"
| "first_pattern ((pattern, t) # rest) message =
     (if regex_test pattern message then t else first_pattern rest message)"

text \<open>\<open>error && typeof error === 'object' && k in error\<close>\<close>

definition object_with :: "string \<Rightarrow> jsval \<Rightarrow> bool" where
  "object_with k error = (case error of JObj p ps \<Rightarrow> has_prop k ps | _ \<Rightarrow> False)"

definition prop_of :: "string \<Rightarrow> jsval \<Rightarrow> jsval" where
  "prop_of k error = (case error of JObj p ps \<Rightarrow> get_prop k ps | _ \<Rightarrow> JUndefined)"

text \<open>
  The checks on the error code and the loop over the patterns.  Each \<open>pattern.test\<close>
  converts the message to text first, so a message without a text makes the first test
  throw.
\<close>

definition detect_by_code :: "Coercions \<Rightarrow> jsval \<Rightarrow> jsval \<Rightarrow> jsval + ErrorType" where
  "detect_by_code js error message =
     (if object_with ''code'' error \<and> prop_of ''code'' error = JStr ''ENOENT'' then Inr FILE_NOT_FOUND
      else if object_with ''code'' error \<and> prop_of ''code'' error = JStr ''ECONNREFUSED''
        then Inr NETWORK_ERROR
      else case completion (js_ToString js message) of
             Inl thrown \<Rightarrow> Inl thrown
           | Inr text \<Rightarrow> Inr (first_pattern ERROR_PATTERNS text))"

definition detectErrorType :: "Coercions \<Rightarrow> jsval \<Rightarrow> jsval \<Rightarrow> jsval + ErrorType" where
  "detectErrorType js error message =
     (if object_with ''status'' error then
        (case completion (js_Number js (prop_of ''status'' error)) of
           Inl thrown \<Rightarrow> Inl thrown
         | Inr status \<Rightarrow>
             if status = Finite 403 then Inr RATE_LIMIT
             else if status = Finite 401 then Inr AUTH_ERROR
             else if status = Finite 404 then Inr FILE_NOT_FOUND
             else detect_by_code js error message)
      else detect_by_code js error message)"

text \<open>The \<open>strategies\<close> table of \<open>getRecoveryStrategy\<close>, as (retryable, fatal).\<close>

definition strategies :: "(ErrorType \<times> bool \<times> bool) list" where
  "strategies =
     [ (RATE_LIMIT, True, False),
       (AUTH_ERROR, False, True),
       (FILE_NOT_FOUND, False, False),
       (NETWORK_ERROR, True, False),
       (CONFLICT, False, False),
       (VALIDATION_ERROR, False, True),
       (UNKNOWN, True, False) ]"

definition getRecoveryStrategy :: "ErrorType \<Rightarrow> bool \<times> bool" where
  "getRecoveryStrategy errorType = the (map_of strategies errorType)"

definition classify :: "Coercions \<Rightarrow> jsval \<Rightarrow> jsval + ErrorContext" where
  "classify js error =
     (case getErrorMessage js error of
        Inl thrown \<Rightarrow> Inl thrown
      | Inr message \<Rightarrow>
          (case detectErrorType js error message of
             Inl thrown \<Rightarrow> Inl thrown
           | Inr t \<Rightarrow>
               (let strategy = getRecoveryStrategy t
                in Inr \<lparr> ctx_type = t, ctx_message = message, ctx_details = error,
                         retryable = fst strategy, fatal = snd strategy \<rparr>)))"

section \<open>The classification as the specification words it\<close>

text \<open>
  Section 4.1 of the specification: the status decides first, then the system code,
  then the message patterns in order, else Unknown; each category carries a fixed pair
  of flags.  The definitions below follow these words and use none of the functions of
  the \<open>ErrorHandler\<close>: a property is carried when the object has an entry of that name,
  the first entry giving its value; a pattern matches when one of its words is a
  contiguous part of the message, both in lower case.  Where the specification says
  nothing, they say what the conversions of the language give: the status is read with
  \<open>Number\<close>, the message of an object that is no \<open>Error\<close> with \<open>String\<close>, and a
  conversion that throws makes the classification throw.
\<close>

definition spec_carries :: "string \<Rightarrow> jsval \<Rightarrow> jsval option" where
  "spec_carries k error =
     (case error of
        JObj p ps \<Rightarrow> map_option snd (find (\<lambda>entry. fst entry = k) ps)
      | _ \<Rightarrow> None)"

definition spec_mentions :: "string list \<Rightarrow> string \<Rightarrow> bool" where
  "spec_mentions words text = list_ex (\<lambda>word. sublist (map to_lower word) (map to_lower text)) words"

definition spec_message :: "Coercions \<Rightarrow> jsval \<Rightarrow> string + jsval" where
  "spec_message js error =
     (case error of
        JStr s \<Rightarrow> Inr (JStr s)
      | JObj p ps \<Rightarrow>
          (case spec_carries ''message'' error of
             Some m \<Rightarrow> if p = ErrorPrototype then Inr m else map_sum id JStr (js_String js m)
           | None \<Rightarrow> if p = ErrorPrototype then Inr (JStr []) else map_sum id JStr (js_String js error))
      | _ \<Rightarrow> map_sum id JStr (js_String js error))"

definition spec_by_patterns :: "string \<Rightarrow> ErrorType" where
  "spec_by_patterns text =
     (if spec_mentions [''rate limit''] text \<or> spec_mentions [''403'', ''forbidden''] text then RATE_LIMIT
      else if spec_mentions [''401'', ''unauthorized''] text then AUTH_ERROR
      else if spec_mentions [''enoent'', ''not found''] text then FILE_NOT_FOUND
      else if spec_mentions [''network'', ''timeout'', ''econnrefused''] text then NETWORK_ERROR
      else if spec_mentions [''conflict''] text then CONFLICT
      else UNKNOWN)"

definition spec_by_code :: "Coercions \<Rightarrow> jsval \<Rightarrow> jsval \<Rightarrow> string + ErrorType" where
  "spec_by_code js error message =
     (if spec_carries ''code'' error = Some (JStr ''ENOENT'') then Inr FILE_NOT_FOUND
      else if spec_carries ''code'' error = Some (JStr ''ECONNREFUSED'') then Inr NETWORK_ERROR
      else map_sum id spec_by_patterns (js_ToString js message))"

definition spec_category :: "Coercions \<Rightarrow> jsval \<Rightarrow> jsval \<Rightarrow> string + ErrorType" where
  "spec_category js error message =
     (case spec_carries ''status'' error of
        None \<Rightarrow> spec_by_code js error message
      | Some status \<Rightarrow>
          (case js_Number js status of
             Inl msg \<Rightarrow> Inl msg
           | Inr n \<Rightarrow>
               if n = Finite 403 then Inr RATE_LIMIT
               else if n = Finite 401 then Inr AUTH_ERROR
               else if n = Finite 404 then Inr FILE_NOT_FOUND
               else spec_by_code js error message))"

fun spec_flags :: "ErrorType \<Rightarrow> bool \<times> bool" where
  "spec_flags RATE_LIMIT = (True, False)"
| "spec_flags AUTH_ERROR = (False, True)"
| "spec_flags FILE_NOT_FOUND = (False, False)"
| "spec_flags NETWORK_ERROR = (True, False)"
| "spec_flags CONFLICT = (False, False)"
| "spec_flags VALIDATION_ERROR = (False, True)"
| "spec_flags UNKNOWN = (True, False)"

definition spec_classify :: "Coercions \<Rightarrow> jsval \<Rightarrow> jsval + ErrorContext" where
  "spec_classify js error =
     (case spec_message js error of
        Inl msg \<Rightarrow> Inl (new_TypeError msg)
      | Inr message \<Rightarrow>
          (case spec_category js error message of
             Inl msg \<Rightarrow> Inl (new_TypeError msg)
           | Inr t \<Rightarrow>
               Inr \<lparr> ctx_type = t, ctx_message = message, ctx_details = error,
                     retryable = fst (spec_flags t), fatal = snd (spec_flags t) \<rparr>))"

section \<open>Process state and runtime\<close>

text \<open>
  The engine runs against collaborators it is handed (the GitHub client, the file handler)
  and against the Node runtime (clock, file system, random ids).  Their state is the
  environment \<open>'e\<close>; what the action prints through \<open>core.info\<close>, \<open>core.warning\<close>,
  \<open>core.error\<close> and \<open>core.debug\<close> is the console.  An asynchronous call that may throw
  is a function from the process state to a result, \<open>Inl\<close> the thrown value, and the new
  state.
\<close>

datatype level = Info | Warning | Error | Debug

record 'e proc =
  env :: 'e
  console :: "(level \<times> string) list"

type_synonym ('e, 'a) action = "'e proc \<Rightarrow> (jsval + 'a) \<times> 'e proc"

definition emit :: "level \<Rightarrow> string \<Rightarrow> 'e proc \<Rightarrow> 'e proc" where
  "emit l msg p = p\<lparr> console := console p @ [(l, msg)] \<rparr>"

text \<open>
  The runtime: the conversions of the language, \<open>Date.now\<close>, the wait of
  \<open>setTimeout\<close>, \<open>crypto.randomUUID\<close>, the hexadecimal SHA-256 digest of the JSON text
  of a checkpoint's key data, \<open>os.tmpdir\<close>, \<open>process.cwd\<close>, \<open>path.relative\<close>, whether
  \<open>fs.access\<close> resolves, and \<open>fs.rm\<close>.
\<close>

record 'e Runtime =
  rt_js :: Coercions
  rt_now :: "'e \<Rightarrow> int"
  rt_sleep :: "int \<Rightarrow> 'e \<Rightarrow> 'e"
  rt_randomUUID :: "'e \<Rightarrow> string \<times> 'e"
  rt_digest :: "(string \<times> string) list \<Rightarrow> (string \<times> string) list \<Rightarrow> string"
  rt_tmpdir :: string
  rt_cwd :: string
  rt_relative :: "string \<Rightarrow> string \<Rightarrow> string"
  rt_access :: "string \<Rightarrow> 'e \<Rightarrow> bool"
  rt_rm :: "string \<Rightarrow> 'e \<Rightarrow> (jsval + unit) \<times> 'e"

section \<open>CircuitBreaker (error-handler.ts)\<close>

datatype BreakerState = CLOSED | OPEN | HALF_OPEN

record CircuitBreaker =
  failureCount :: int
  lastFailureTime :: int
  cb_state :: BreakerState
  threshold :: int
  timeout :: int

definition new_CircuitBreaker :: "int \<Rightarrow> int \<Rightarrow> CircuitBreaker" where
  "new_CircuitBreaker th t =
     \<lparr> failureCount = 0, lastFailureTime = 0, cb_state = CLOSED, threshold = th, timeout = t \<rparr>"

definition default_CircuitBreaker :: CircuitBreaker where
  "default_CircuitBreaker = new_CircuitBreaker 5 60000"

definition cb_recordFailure :: "'e Runtime \<Rightarrow> CircuitBreaker \<Rightarrow> 'e proc \<Rightarrow> CircuitBreaker \<times> 'e proc" where
  "cb_recordFailure rt cb p =
     (let cb1 = cb\<lparr> failureCount := failureCount cb + 1, lastFailureTime := rt_now rt (env p) \<rparr>
      in if failureCount cb1 \<ge> threshold cb1
         then (cb1\<lparr> cb_state := OPEN \<rparr>,
               emit Warning (''Circuit breaker opened after '' @ show_int (failureCount cb1) @ '' failures'') p)
         else (cb1, p))"

definition cb_reset :: "CircuitBreaker \<Rightarrow> 'e proc \<Rightarrow> CircuitBreaker \<times> 'e proc" where
  "cb_reset cb p = (cb\<lparr> failureCount := 0, cb_state := CLOSED \<rparr>, emit Info ''Circuit breaker reset'' p)"

definition breaker_open_error :: jsval where
  "breaker_open_error = new_Error ''Circuit breaker is OPEN''"

definition execute ::
  "'e Runtime \<Rightarrow> CircuitBreaker \<Rightarrow> ('e, 'a) action \<Rightarrow> 'e proc \<Rightarrow> (jsval + 'a) \<times> CircuitBreaker \<times> 'e proc" where
  "execute rt cb operation p =
     (if cb_state cb = OPEN \<and> \<not> (rt_now rt (env p) - lastFailureTime cb > timeout cb)
      then (Inl breaker_open_error, cb, p)
      else
        let cb1 = (if cb_state cb = OPEN then cb\<lparr> cb_state := HALF_OPEN \<rparr> else cb) in
        case operation p of
          (Inr result, p1) \<Rightarrow>
            if cb_state cb1 = HALF_OPEN
            then (let (cb2, p2) = cb_reset cb1 p1 in (Inr result, cb2, p2))
            else (Inr result, cb1, p1)
        | (Inl error, p1) \<Rightarrow>
            (let (cb2, p2) = cb_recordFailure rt cb1 p1 in (Inl error, cb2, p2)))"

text \<open>Successive \<open>execute\<close> calls on one breaker, with the outcome of each.\<close>

fun execute_all ::
  "'e Runtime \<Rightarrow> CircuitBreaker \<Rightarrow> ('e, 'a) action list \<Rightarrow> 'e proc
     \<Rightarrow> (jsval + 'a) list \<times> CircuitBreaker \<times> 'e proc" where
  "execute_all rt cb [] p = ([], cb, p)"
| "execute_all rt cb (operation # rest) p =
     (let (r, cb1, p1) = execute rt cb operation p;
          (rs, cb2, p2) = execute_all rt cb1 rest p1
      in (r # rs, cb2, p2))"

text \<open>
  The reading of the specification: the number of failures in a row at the end of a
  sequence of outcomes, a success starting the count again.
\<close>

definition consecutive_failures :: "(jsval + 'a) list \<Rightarrow> nat" where
  "consecutive_failures outcomes = length (takeWhile isl (rev outcomes))"

text \<open>
  What holds of a breaker with a positive threshold between two calls: it is Closed
  below its threshold, or Open at or above it; HalfOpen lasts only for the duration of a
  trial call.
\<close>

definition breaker_settled :: "CircuitBreaker \<Rightarrow> bool" where
  "breaker_settled cb =
     (0 < threshold cb \<and>
      (if cb_state cb = CLOSED then failureCount cb < threshold cb
       else cb_state cb = OPEN \<and> threshold cb \<le> failureCount cb))"

section \<open>Paths (node:path, POSIX flavour)\<close>

text \<open>\<open>s.split(c)\<close> and \<open>parts.join(sep)\<close>.\<close>

fun split_on :: "char \<Rightarrow> string \<Rightarrow> string list" where
  "split_on c [] = [[]]"
| "split_on c (x # xs) =
     (if x = c then [] # split_on c xs
      else (case split_on c xs of [] \<Rightarrow> [[x]] | y # ys \<Rightarrow> (x # y) # ys))"

fun join_with :: "string \<Rightarrow> string list \<Rightarrow> string" where
  "join_with sep [] = []"
| "join_with sep [s] = s"
| "join_with sep (s # t # ss) = s @ sep @ join_with sep (t # ss)"

definition ends_with :: "string \<Rightarrow> string \<Rightarrow> bool" where
  "ends_with ending s = (length ending \<le> length s \<and> drop (length s - length ending) s = ending)"

text \<open>
  \<open>normalizeString\<close>: the segments of a path are pushed on a stack (held reversed), empty
  and \<open>.\<close> segments are dropped, and \<open>..\<close> pops the segment before it unless there is
  none or it is \<open>..\<close> itself, when it stays only in a relative path.
\<close>

fun normalize_segments :: "bool \<Rightarrow> string list \<Rightarrow> string list \<Rightarrow> string list" where
  "normalize_segments allowAboveRoot acc [] = rev acc"
| "normalize_segments allowAboveRoot acc (seg # segs) =
     (if seg = [] \<or> seg = ''.'' then normalize_segments allowAboveRoot acc segs
      else if seg = ''..'' then
        (if acc \<noteq> [] \<and> hd acc \<noteq> ''..'' then normalize_segments allowAboveRoot (tl acc) segs
         else if allowAboveRoot then normalize_segments allowAboveRoot (seg # acc) segs
         else normalize_segments allowAboveRoot acc segs)
      else normalize_segments allowAboveRoot (seg # acc) segs)"

definition path_normalize :: "string \<Rightarrow> string" where
  "path_normalize path =
     (if path = [] then ''.''
      else
        let isAbsolute = (hd path = CHR ''/'');
            trailingSeparator = (last path = CHR ''/'');
            body = join_with ''/'' (normalize_segments (\<not> isAbsolute) [] (split_on CHR ''/'' path))
        in if body = [] then (if isAbsolute then ''/'' else if trailingSeparator then ''./'' else ''.'')
           else (if isAbsolute then ''/'' else []) @ body @ (if trailingSeparator then ''/'' else []))"

definition path_join :: "string list \<Rightarrow> string" where
  "path_join args =
     (let joined = join_with ''/'' (filter (\<lambda>a. a \<noteq> []) args)
      in if joined = [] then ''.'' else path_normalize joined)"

section \<open>FileHandler: names of wiki pages (file-handler.js)\<close>

text \<open>\<open>replace(/\.md$/i, '')\<close>\<close>

definition strip_md :: "string \<Rightarrow> string" where
  "strip_md s =
     (if 3 \<le> length s \<and> map to_lower (drop (length s - 3) s) = ''.md''
      then take (length s - 3) s else s)"

text \<open>\<open>replace(/[/\\]/g, '-')\<close>\<close>

definition separators_to_hyphens :: "string \<Rightarrow> string" where
  "separators_to_hyphens s = map (\<lambda>c. if c = CHR ''/'' \<or> c = CHR 0x5C then CHR ''-'' else c) s"

text \<open>\<open>replace(/-+/g, '-')\<close>\<close>

fun collapse_hyphens :: "string \<Rightarrow> string" where
  "collapse_hyphens (a # b # cs) =
     (if a = CHR ''-'' \<and> b = CHR ''-'' then collapse_hyphens (b # cs) else a # collapse_hyphens (b # cs))"
| "collapse_hyphens s = s"

text \<open>\<open>replace(/^-+|-+$/g, '')\<close>\<close>

definition trim_hyphens :: "string \<Rightarrow> string" where
  "trim_hyphens s = rev (dropWhile (\<lambda>c. c = CHR ''-'') (rev (dropWhile (\<lambda>c. c = CHR ''-'') s)))"

definition convertPathToWikiName :: "string \<Rightarrow> string" where
  "convertPathToWikiName filePath =
     trim_hyphens (collapse_hyphens (separators_to_hyphens (strip_md filePath)))"

definition convertWikiNameToPath :: "string \<Rightarrow> string \<Rightarrow> string" where
  "convertWikiNameToPath wikiName baseDir =
     (let parts = split_on CHR ''-'' wikiName;
          filePath1 = (if length parts > 1
                       then (let fileName = last parts; dirs = butlast parts
                             in if length dirs > 0 then path_join (dirs @ [fileName]) else fileName)
                       else wikiName);
          filePath2 = (if \<not> ends_with ''.md'' filePath1 then filePath1 @ ''.md'' else filePath1)
      in if baseDir \<noteq> [] then path_join [baseDir, filePath2] else filePath2)"



section \<open>Files, pages and changes (types.d.ts)\<close>

text \<open>Times (\<open>Date\<close>) are milliseconds.\<close>

datatype ConflictStrategy = RepoWins | WikiWins | Manual | Skip

record ActionConfig =
  token :: string
  repository :: string
  owner :: string
  repo :: string
  syncFolder :: string
  wikiRepo :: string
  conflictStrategy :: ConflictStrategy
  syncDeletes :: "bool option"

record MarkdownFile =
  mf_path :: string
  mf_relativePath :: "string option"
  mf_name :: string
  mf_content :: string
  mf_sha :: "string option"
  mf_lastModified :: int

record WikiPage =
  wp_name :: string
  wp_path :: string
  wp_content :: string
  wp_lastModified :: "int option"

record Change =
  c_type :: ChangeType
  c_source :: ChangeSource
  c_direction :: "ChangeDirection option"
  c_filePath :: string
  c_wikiName :: string
  c_content :: "string option"
  c_oldContent :: "string option"
  c_repoModified :: "int option"
  c_wikiModified :: "int option"

section \<open>SyncEngine.detectChanges (sync-engine.ts)\<close>

text \<open>
  A JavaScript \<open>Map\<close> iterates in insertion order, and \<open>set\<close> on a key already present
  replaces the value where the key stands: an association list with distinct keys.
\<close>

fun map_set :: "'k \<Rightarrow> 'v \<Rightarrow> ('k \<times> 'v) list \<Rightarrow> ('k \<times> 'v) list" where
  "map_set k v [] = [(k, v)]"
| "map_set k v (entry # m) = (if fst entry = k then (k, v) # m else entry # map_set k v m)"

definition map_has :: "'k \<Rightarrow> ('k \<times> 'v) list \<Rightarrow> bool" where
  "map_has k m = (map_of m k \<noteq> None)"

text \<open>\<open>repoFile.relativePath || repoFile.path\<close>\<close>

definition relative_or_path :: "MarkdownFile \<Rightarrow> string" where
  "relative_or_path f =
     (case mf_relativePath f of None \<Rightarrow> mf_path f | Some r \<Rightarrow> if r = [] then mf_path f else r)"

definition build_repoFileMap :: "MarkdownFile list \<Rightarrow> (string \<times> MarkdownFile) list" where
  "build_repoFileMap repoFiles =
     foldl (\<lambda>m repoFile. map_set (convertPathToWikiName (relative_or_path repoFile)) repoFile m) [] repoFiles"

definition build_wikiFileMap :: "WikiPage list \<Rightarrow> (string \<times> WikiPage) list" where
  "build_wikiFileMap wikiFiles = foldl (\<lambda>m wikiFile. map_set (wp_name wikiFile) wikiFile m) [] wikiFiles"

text \<open>First loop, over \<open>repoFileMap\<close>: a create or an update per entry, as they come.\<close>

fun repo_to_wiki_changes :: "(string \<times> WikiPage) list \<Rightarrow> (string \<times> MarkdownFile) list \<Rightarrow> Change list" where
  "repo_to_wiki_changes wikiFileMap [] = []"
| "repo_to_wiki_changes wikiFileMap ((wikiName, repoFile) # rest) =
     (case map_of wikiFileMap wikiName of
        None \<Rightarrow>
          [\<lparr> c_type = Create, c_source = Repo, c_direction = Some RepoToWiki,
             c_filePath = relative_or_path repoFile, c_wikiName = wikiName,
             c_content = Some (mf_content repoFile), c_oldContent = None,
             c_repoModified = None, c_wikiModified = None \<rparr>]
      | Some wikiFile \<Rightarrow>
          if mf_content repoFile \<noteq> wp_content wikiFile then
            [\<lparr> c_type = Update, c_source = Repo, c_direction = Some RepoToWiki,
               c_filePath = relative_or_path repoFile, c_wikiName = wikiName,
               c_content = Some (mf_content repoFile), c_oldContent = Some (wp_content wikiFile),
               c_repoModified = Some (mf_lastModified repoFile),
               c_wikiModified = wp_lastModified wikiFile \<rparr>]
          else [])
     @ repo_to_wiki_changes wikiFileMap rest"

text \<open>
  Second loop, over \<open>wikiFileMap\<close>: a page without a repository file is created in the
  repository unless \<open>fs.access\<close> finds the mapped path on disk.
\<close>

definition mapped_full_path :: "'e Runtime \<Rightarrow> ActionConfig \<Rightarrow> string \<Rightarrow> string" where
  "mapped_full_path rt config wikiName =
     path_join [rt_cwd rt, convertWikiNameToPath wikiName (syncFolder config)]"

fun wiki_to_repo_changes ::
  "'e Runtime \<Rightarrow> ActionConfig \<Rightarrow> 'e \<Rightarrow> (string \<times> MarkdownFile) list \<Rightarrow> (string \<times> WikiPage) list \<Rightarrow> Change list" where
  "wiki_to_repo_changes rt config e repoFileMap [] = []"
| "wiki_to_repo_changes rt config e repoFileMap ((wikiName, wikiFile) # rest) =
     (let repoPath = convertWikiNameToPath wikiName (syncFolder config) in
      if map_of repoFileMap wikiName = None
      then (let fullPath = path_join [rt_cwd rt, repoPath] in
            if rt_access rt fullPath e then []
            else [\<lparr> c_type = Create, c_source = Wiki, c_direction = Some WikiToRepo,
                    c_filePath = repoPath, c_wikiName = wikiName,
                    c_content = Some (wp_content wikiFile), c_oldContent = None,
                    c_repoModified = None, c_wikiModified = None \<rparr>])
      else [])
     @ wiki_to_repo_changes rt config e repoFileMap rest"

text \<open>Third loop, when \<open>syncDeletes !== false\<close>: a delete per page without a repository file.\<close>

fun delete_changes :: "(string \<times> MarkdownFile) list \<Rightarrow> (string \<times> WikiPage) list \<Rightarrow> Change list" where
  "delete_changes repoFileMap [] = []"
| "delete_changes repoFileMap ((wikiName, wikiFile) # rest) =
     (if \<not> map_has wikiName repoFileMap
      then [\<lparr> c_type = Delete, c_source = Repo, c_direction = Some RepoToWiki,
              c_filePath = convertWikiNameToPath wikiName [], c_wikiName = wikiName,
              c_content = None, c_oldContent = None,
              c_repoModified = None, c_wikiModified = None \<rparr>]
      else [])
     @ delete_changes repoFileMap rest"

text \<open>
  The changes \<open>detectChanges\<close> returns for the files \<open>getRepoFiles\<close> and the pages
  \<open>getWikiFiles\<close> delivered, in an environment that is only read.
\<close>

definition detect :: "'e Runtime \<Rightarrow> ActionConfig \<Rightarrow> 'e \<Rightarrow> MarkdownFile list \<Rightarrow> WikiPage list \<Rightarrow> Change list" where
  "detect rt config e repoFiles wikiFiles =
     (let repoFileMap = build_repoFileMap repoFiles;
          wikiFileMap = build_wikiFileMap wikiFiles
      in repo_to_wiki_changes wikiFileMap repoFileMap
         @ wiki_to_repo_changes rt config e repoFileMap wikiFileMap
         @ (if syncDeletes config \<noteq> Some False then delete_changes repoFileMap wikiFileMap else []))"

text \<open>The phase of a change in the returned list.\<close>

definition is_repo_create :: "Change \<Rightarrow> bool" where
  "is_repo_create c = (c_type c = Create \<and> c_direction c = Some RepoToWiki)"

definition is_repo_update :: "Change \<Rightarrow> bool" where
  "is_repo_update c = (c_type c = Update \<and> c_direction c = Some RepoToWiki)"

definition is_wiki_create :: "Change \<Rightarrow> bool" where
  "is_wiki_create c = (c_type c = Create \<and> c_direction c = Some WikiToRepo)"

definition is_repo_delete :: "Change \<Rightarrow> bool" where
  "is_repo_delete c = (c_type c = Delete \<and> c_direction c = Some RepoToWiki)"

text \<open>The four phases of the specification, and the three of the loops.\<close>

definition spec_phase :: "Change \<Rightarrow> nat" where
  "spec_phase c =
     (if is_repo_create c then 0 else if is_repo_update c then 1 else if is_wiki_create c then 2 else 3)"

definition loop_phase :: "Change \<Rightarrow> nat" where
  "loop_phase c =
     (if is_repo_create c \<or> is_repo_update c then 0 else if is_wiki_create c then 1 else 2)"

section \<open>The GitHub client, as the engine and the transaction manager use it\<close>

text \<open>
  The client is handed to the constructors; each of its methods acts on the environment
  and may throw.  \<open>getFileContent\<close> returns the content and the blob sha.
\<close>

record 'e GitHubClient =
  gh_getFileContent :: "string \<Rightarrow> 'e \<Rightarrow> (jsval + string \<times> string) \<times> 'e"
  gh_createFile :: "string \<Rightarrow> string \<Rightarrow> string \<Rightarrow> 'e \<Rightarrow> (jsval + unit) \<times> 'e"
  gh_updateFile :: "string \<Rightarrow> string \<Rightarrow> string \<Rightarrow> string \<Rightarrow> 'e \<Rightarrow> (jsval + unit) \<times> 'e"
  gh_deleteFile :: "string \<Rightarrow> string \<Rightarrow> string \<Rightarrow> 'e \<Rightarrow> (jsval + unit) \<times> 'e"
  gh_cloneWiki :: "string \<Rightarrow> 'e \<Rightarrow> (jsval + string) \<times> 'e"
  gh_getWikiPages :: "string \<Rightarrow> 'e \<Rightarrow> (jsval + WikiPage list) \<times> 'e"
  gh_commitWikiChanges :: "string \<Rightarrow> string \<Rightarrow> 'e \<Rightarrow> (jsval + unit) \<times> 'e"
  gh_pushWikiChanges :: "string \<Rightarrow> 'e \<Rightarrow> (jsval + unit) \<times> 'e"

text \<open>A client call as an action of the process.\<close>

definition call :: "('e \<Rightarrow> (jsval + 'a) \<times> 'e) \<Rightarrow> ('e, 'a) action" where
  "call f p = (case f (env p) of (r, e) \<Rightarrow> (r, p\<lparr> env := e \<rparr>))"

text \<open>
  \<open>error instanceof Error ? error.message : String(error)\<close> inside a template literal:
  the message of an \<open>Error\<close> is converted to text by the template, any other value by
  \<open>String\<close>; either conversion may throw.
\<close>

definition error_text :: "Coercions \<Rightarrow> jsval \<Rightarrow> jsval + string" where
  "error_text js error =
     (case error of
        JObj ErrorPrototype ps \<Rightarrow> completion (js_ToString js (error_message ps))
      | _ \<Rightarrow> completion (js_String js error))"

section \<open>TransactionManager (transaction-manager)\<close>

record FileState =
  fs_path :: string
  fs_sha :: string
  fs_content :: string

record PageState =
  ps_name :: string
  ps_content :: string

record Checkpoint =
  cp_timestamp :: int
  repoState :: "FileState list"
  wikiState :: "PageState list"
  cp_hash :: string

datatype TransactionStatus = Pending | Committed | RolledBack

record SyncTransaction =
  tx_id :: string
  operations :: "SyncOperation list"
  status :: TransactionStatus
  tx_checkpoints :: "Checkpoint list"

text \<open>The manager: the open transaction, if any, and the map from hash to checkpoint.\<close>

record TransactionManager =
  transaction :: "SyncTransaction option"
  checkpoints :: "(string \<times> Checkpoint) list"

definition new_TransactionManager :: TransactionManager where
  "new_TransactionManager = \<lparr> transaction = None, checkpoints = [] \<rparr>"

definition no_active_transaction :: jsval where
  "no_active_transaction = new_Error ''No active transaction''"

text \<open>
  \<open>beginTransaction\<close> has no check of the transaction at hand: it draws an id and puts a
  new transaction in its place.
\<close>

definition beginTransaction ::
  "'e Runtime \<Rightarrow> TransactionManager \<Rightarrow> 'e proc \<Rightarrow> (jsval + string) \<times> TransactionManager \<times> 'e proc" where
  "beginTransaction rt tm p =
     (let (transactionId, e1) = rt_randomUUID rt (env p);
          tm1 = tm\<lparr> transaction := Some \<lparr> tx_id = transactionId, operations = [],
                                            status = Pending, tx_checkpoints = [] \<rparr> \<rparr>
      in (Inr transactionId, tm1,
          emit Info (''Transaction '' @ transactionId @ '' started'') (p\<lparr> env := e1 \<rparr>)))"

definition calculateHash :: "'e Runtime \<Rightarrow> FileState list \<Rightarrow> PageState list \<Rightarrow> string" where
  "calculateHash rt repoFiles wikiFiles =
     take 8 (rt_digest rt (map (\<lambda>f. (fs_path f, fs_sha f)) repoFiles)
                          (map (\<lambda>p. (ps_name p, take 100 (ps_content p))) wikiFiles))"

definition createCheckpoint ::
  "'e Runtime \<Rightarrow> TransactionManager \<Rightarrow> FileState list \<Rightarrow> PageState list \<Rightarrow> 'e proc
     \<Rightarrow> (jsval + Checkpoint) \<times> TransactionManager \<times> 'e proc" where
  "createCheckpoint rt tm repoFiles wikiFiles p =
     (case transaction tm of
        None \<Rightarrow> (Inl no_active_transaction, tm, p)
      | Some tx \<Rightarrow>
          let checkpoint = \<lparr> cp_timestamp = rt_now rt (env p), repoState = repoFiles,
                              wikiState = wikiFiles, cp_hash = calculateHash rt repoFiles wikiFiles \<rparr>;
              tm1 = tm\<lparr> transaction := Some (tx\<lparr> tx_checkpoints := tx_checkpoints tx @ [checkpoint] \<rparr>),
                        checkpoints := map_set (cp_hash checkpoint) checkpoint (checkpoints tm) \<rparr>
          in (Inr checkpoint, tm1, emit Info (''Checkpoint created: '' @ cp_hash checkpoint) p))"

definition type_text :: "ChangeType \<Rightarrow> string" where
  "type_text t = (case t of Create \<Rightarrow> ''create'' | Update \<Rightarrow> ''update'' | Delete \<Rightarrow> ''delete'')"

definition recordOperation ::
  "TransactionManager \<Rightarrow> SyncOperation \<Rightarrow> 'e proc \<Rightarrow> (jsval + unit) \<times> TransactionManager \<times> 'e proc" where
  "recordOperation tm operation p =
     (case transaction tm of
        None \<Rightarrow> (Inl no_active_transaction, tm, p)
      | Some tx \<Rightarrow>
          (Inr (), tm\<lparr> transaction := Some (tx\<lparr> operations := operations tx @ [operation] \<rparr>) \<rparr>,
           emit Debug (''Operation recorded: '' @ type_text (op_type operation) @ '' '' @ op_path operation) p))"

text \<open>
  \<open>commit\<close> and \<open>rollback\<close> write the final status into the transaction and let go of it
  in their \<open>finally\<close>; nothing holds the object afterwards.
\<close>

definition commit :: "TransactionManager \<Rightarrow> 'e proc \<Rightarrow> (jsval + unit) \<times> TransactionManager \<times> 'e proc" where
  "commit tm p =
     (case transaction tm of
        None \<Rightarrow> (Inl no_active_transaction, tm, p)
      | Some tx \<Rightarrow>
          (Inr (), tm\<lparr> transaction := None \<rparr>,
           emit Info (''Transaction '' @ tx_id tx @ '' committed successfully'') p))"

text \<open>
  One turn of the loop of \<open>restoreRepositoryState\<close>: a failed \<open>getFileContent\<close> counts as
  a file that is gone, and whatever the update or the create throws is caught and logged
  as a warning.  The warning prints the caught value; when that conversion throws, the
  \<open>catch\<close> block throws and the loop is left.
\<close>

definition restore_failed ::
  "Coercions \<Rightarrow> FileState \<Rightarrow> jsval \<Rightarrow> 'e proc \<Rightarrow> (jsval + unit) \<times> 'e proc" where
  "restore_failed js file error p =
     (case error_text js error of
        Inl thrown \<Rightarrow> (Inl thrown, p)
      | Inr text \<Rightarrow> (Inr (), emit Warning (''Failed to restore '' @ fs_path file @ '': '' @ text) p))"

definition restore_file ::
  "Coercions \<Rightarrow> 'e GitHubClient \<Rightarrow> FileState \<Rightarrow> 'e proc \<Rightarrow> (jsval + unit) \<times> 'e proc" where
  "restore_file js github file p =
     (case call (gh_getFileContent github (fs_path file)) p of
        (Inr (content, sha), p1) \<Rightarrow>
          if sha \<noteq> fs_sha file then
            (case call (gh_updateFile github (fs_path file) (fs_content file) sha
                           ''Rollback: Restore file state'') p1 of
               (Inr u, p2) \<Rightarrow> (Inr (), p2)
             | (Inl error, p2) \<Rightarrow> restore_failed js file error p2)
          else (Inr (), p1)
      | (Inl absent, p1) \<Rightarrow>
          (case call (gh_createFile github (fs_path file) (fs_content file)
                         ''Rollback: Restore deleted file'') p1 of
             (Inr u, p2) \<Rightarrow> (Inr (), p2)
           | (Inl error, p2) \<Rightarrow> restore_failed js file error p2))"

fun restore_files ::
  "Coercions \<Rightarrow> 'e GitHubClient \<Rightarrow> FileState list \<Rightarrow> 'e proc \<Rightarrow> (jsval + unit) \<times> 'e proc" where
  "restore_files js github [] p = (Inr (), p)"
| "restore_files js github (file # rest) p =
     (case restore_file js github file p of
        (Inl thrown, p1) \<Rightarrow> (Inl thrown, p1)
      | (Inr u, p1) \<Rightarrow> restore_files js github rest p1)"

definition restoreRepositoryState ::
  "Coercions \<Rightarrow> 'e GitHubClient \<Rightarrow> FileState list \<Rightarrow> 'e proc \<Rightarrow> (jsval + unit) \<times> 'e proc" where
  "restoreRepositoryState js github files p =
     restore_files js github files (emit Info ''Restoring repository state...'' p)"

definition restoreWikiState :: "PageState list \<Rightarrow> 'e proc \<Rightarrow> 'e proc" where
  "restoreWikiState pages p =
     foldl (\<lambda>q page. emit Info (''Wiki page needs restoration: '' @ ps_name page) q)
       (emit Warning ''Wiki rollback is not fully implemented. Manual intervention may be required.''
          (emit Info ''Restoring wiki state...'' p))
       pages"

definition no_checkpoint :: jsval where
  "no_checkpoint = new_Error ''No checkpoint available for rollback''"

text \<open>
  \<open>rollback\<close>: the \<open>try\<close> block, then the \<open>catch\<close>, which prints the error and throws it
  again (or throws what printing it throws), and the \<open>finally\<close>, which lets go of the
  transaction in every case.
\<close>

definition rollback_try ::
  "Coercions \<Rightarrow> 'e GitHubClient \<Rightarrow> SyncTransaction \<Rightarrow> 'e proc \<Rightarrow> (jsval + unit) \<times> 'e proc" where
  "rollback_try js github tx p =
     (let p1 = emit Warning (''Rolling back transaction '' @ tx_id tx) p in
      case tx_checkpoints tx of
        [] \<Rightarrow> (Inl no_checkpoint, p1)
      | initialCheckpoint # later \<Rightarrow>
          (case restoreRepositoryState js github (repoState initialCheckpoint) p1 of
             (Inl thrown, p2) \<Rightarrow> (Inl thrown, p2)
           | (Inr u, p2) \<Rightarrow>
               (Inr (), emit Info (''Transaction '' @ tx_id tx @ '' rolled back'')
                          (restoreWikiState (wikiState initialCheckpoint) p2))))"

definition rollback ::
  "Coercions \<Rightarrow> 'e GitHubClient \<Rightarrow> TransactionManager \<Rightarrow> 'e proc
     \<Rightarrow> (jsval + unit) \<times> TransactionManager \<times> 'e proc" where
  "rollback js github tm p =
     (case transaction tm of
        None \<Rightarrow> (Inl no_active_transaction, tm, p)
      | Some tx \<Rightarrow>
          (case rollback_try js github tx p of
             (Inr u, p1) \<Rightarrow> (Inr (), tm\<lparr> transaction := None \<rparr>, p1)
           | (Inl error, p1) \<Rightarrow>
               (case error_text js error of
                  Inl thrown \<Rightarrow> (Inl thrown, tm\<lparr> transaction := None \<rparr>, p1)
                | Inr text \<Rightarrow>
                    (Inl error, tm\<lparr> transaction := None \<rparr>,
                     emit Error (''Rollback failed: '' @ text) p1))))"

text \<open>
  A thrown value is reportable when the \<open>catch\<close> blocks can print it, and a client's
  write failures are reportable when every value that its \<open>updateFile\<close> and
  \<open>createFile\<close> throw is.
\<close>

definition reportable :: "Coercions \<Rightarrow> jsval \<Rightarrow> bool" where
  "reportable js error = (\<not> isl (error_text js error))"


definition isInTransaction :: "TransactionManager \<Rightarrow> bool" where
  "isInTransaction tm = (transaction tm \<noteq> None)"

text \<open>\<open>this.transaction?.id || null\<close>\<close>

definition getTransactionId :: "TransactionManager \<Rightarrow> string option" where
  "getTransactionId tm =
     (case transaction tm of None \<Rightarrow> None | Some tx \<Rightarrow> if tx_id tx = [] then None else Some (tx_id tx))"

section \<open>ErrorHandler: retry and logging (error-handler.ts)\<close>

definition type_name :: "ErrorType \<Rightarrow> string" where
  "type_name t =
     (case t of RATE_LIMIT \<Rightarrow> ''RATE_LIMIT'' | AUTH_ERROR \<Rightarrow> ''AUTH_ERROR''
      | FILE_NOT_FOUND \<Rightarrow> ''FILE_NOT_FOUND'' | NETWORK_ERROR \<Rightarrow> ''NETWORK_ERROR''
      | CONFLICT \<Rightarrow> ''CONFLICT'' | VALIDATION_ERROR \<Rightarrow> ''VALIDATION_ERROR'' | UNKNOWN \<Rightarrow> ''UNKNOWN'')"

definition js_truthy :: "jsval \<Rightarrow> bool" where
  "js_truthy v =
     (case v of
        JUndefined \<Rightarrow> False
      | JNull \<Rightarrow> False
      | JBool b \<Rightarrow> b
      | JNum n \<Rightarrow> n \<noteq> Finite 0 \<and> n \<noteq> NaN
      | JStr s \<Rightarrow> s \<noteq> []
      | JBigInt i \<Rightarrow> i \<noteq> 0
      | _ \<Rightarrow> True)"

text \<open>
  What \<open>core.debug\<close> prints for its argument: a string as it is, any other value as its
  JSON text.
\<close>

definition command_value :: "Coercions \<Rightarrow> jsval \<Rightarrow> jsval + string" where
  "command_value js v = (case v of JStr s \<Rightarrow> Inr s | _ \<Rightarrow> completion (json_text js v))"

text \<open>\<open>if (error instanceof Error && error.stack) core.debug(error.stack)\<close>\<close>

definition log_stack :: "Coercions \<Rightarrow> jsval \<Rightarrow> 'e proc \<Rightarrow> (jsval + unit) \<times> 'e proc" where
  "log_stack js error p =
     (case error of
        JObj ErrorPrototype ps \<Rightarrow>
          if js_truthy (get_prop ''stack'' ps) then
            (case command_value js (get_prop ''stack'' ps) of
               Inl thrown \<Rightarrow> (Inl thrown, p)
             | Inr text \<Rightarrow> (Inr (), emit Debug text p))
          else (Inr (), p)
      | _ \<Rightarrow> (Inr (), p))"

text \<open>The object handed to \<open>JSON.stringify\<close> for the structured log line.\<close>

definition log_entry :: "ErrorContext \<Rightarrow> jsval" where
  "log_entry errorContext =
     JObj ObjectPrototype
       [ (''type'', JStr (type_name (ctx_type errorContext))),
         (''message'', ctx_message errorContext),
         (''retryable'', JBool (retryable errorContext)),
         (''fatal'', JBool (fatal errorContext)),
         (''details'', ctx_details errorContext) ]"

text \<open>
  \<open>logError\<close> classifies the error, prints its message, its stack and the structured
  line.  It has no \<open>try\<close>: what the classification, the template literal or
  \<open>JSON.stringify\<close> throw leaves it, after the lines printed so far.
\<close>

definition logError :: "'e Runtime \<Rightarrow> jsval \<Rightarrow> string option \<Rightarrow> 'e proc \<Rightarrow> (jsval + unit) \<times> 'e proc" where
  "logError rt error context p =
     (case classify (rt_js rt) error of
        Inl thrown \<Rightarrow> (Inl thrown, p)
      | Inr errorContext \<Rightarrow>
          (let prefix = (case context of None \<Rightarrow> [] | Some c \<Rightarrow> if c = [] then [] else ''['' @ c @ ''] '')
           in case completion (js_ToString (rt_js rt) (ctx_message errorContext)) of
                Inl thrown \<Rightarrow> (Inl thrown, p)
              | Inr text \<Rightarrow>
                  (case log_stack (rt_js rt) error (emit Error (prefix @ text) p) of
                     (Inl thrown, p2) \<Rightarrow> (Inl thrown, p2)
                   | (Inr u, p2) \<Rightarrow>
                       (case completion (json_text (rt_js rt) (log_entry errorContext)) of
                          Inl thrown \<Rightarrow> (Inl thrown, p2)
                        | Inr line \<Rightarrow> (Inr (), emit Debug line p2)))))"

text \<open>
  The loop of \<open>retryWithBackoff\<close> from attempt \<open>attempt\<close> on; \<open>lastError\<close> is thrown when
  the loop is left without a return.  What the classification or the template literal of
  the warning throw inside the \<open>catch\<close> leaves the loop.
\<close>

function retry_loop ::
  "'e Runtime \<Rightarrow> ('e, 'a) action \<Rightarrow> int \<Rightarrow> int \<Rightarrow> int \<Rightarrow> jsval \<Rightarrow> 'e proc \<Rightarrow> (jsval + 'a) \<times> 'e proc" where
  "retry_loop rt operation maxRetries baseDelay attempt lastError p =
     (if attempt \<le> maxRetries then
        (case operation p of
           (Inr v, p1) \<Rightarrow> (Inr v, p1)
         | (Inl error, p1) \<Rightarrow>
             (case classify (rt_js rt) error of
                Inl thrown \<Rightarrow> (Inl thrown, p1)
              | Inr errorContext \<Rightarrow>
                  if \<not> retryable errorContext \<or> attempt = maxRetries then (Inl error, p1)
                  else
                    (case completion (js_ToString (rt_js rt) (ctx_message errorContext)) of
                       Inl thrown \<Rightarrow> (Inl thrown, p1)
                     | Inr text \<Rightarrow>
                         retry_loop rt operation maxRetries baseDelay (attempt + 1) error
                           ((emit Warning (''Attempt '' @ show_int attempt @ '' failed: ''
                                 @ text @ ''. Retrying in ''
                                 @ show_int (min (baseDelay * 2 ^ nat (attempt - 1)) 30000) @ ''ms...'') p1)
                            \<lparr> env := rt_sleep rt (min (baseDelay * 2 ^ nat (attempt - 1)) 30000) (env p1) \<rparr>))))
      else (Inl lastError, p))"
  by pat_completeness auto
termination
  by (relation "measure (\<lambda>(rt, operation, maxRetries, baseDelay, attempt, lastError, p).
                   nat (maxRetries + 1 - attempt))") auto

declare retry_loop.simps [simp del]

definition retryWithBackoff :: "'e Runtime \<Rightarrow> ('e, 'a) action \<Rightarrow> ('e, 'a) action" where
  "retryWithBackoff rt operation = retry_loop rt operation 3 1000 1 JUndefined"

section \<open>SyncEngine (sync-engine.ts)\<close>

text \<open>The file handler's calls on the file system.\<close>

record 'e FileHandler =
  fh_readMarkdownFiles :: "string \<Rightarrow> 'e \<Rightarrow> (jsval + MarkdownFile list) \<times> 'e"
  fh_writeMarkdownFile :: "string \<Rightarrow> string \<Rightarrow> 'e \<Rightarrow> (jsval + unit) \<times> 'e"
  fh_deleteMarkdownFile :: "string \<Rightarrow> 'e \<Rightarrow> (jsval + unit) \<times> 'e"

text \<open>
  An entry of \<open>result.errors\<close>; its \<open>error\<close> is declared a string and holds the message
  as the classification or the \<open>catch\<close> block found it.
\<close>

record SyncError =
  se_change :: "Change option"
  se_phase :: "string option"
  se_error :: jsval

record Conflict =
  cf_filePath :: string
  cf_wikiName :: string
  cf_repoContent :: string
  cf_wikiContent :: string
  cf_resolution :: "string option"

record SyncResult =
  success :: bool
  changesApplied :: int
  errors :: "SyncError list"
  conflicts :: "Conflict list"
  summary :: string

text \<open>
  The engine between runs: the fields \<open>wikiPath\<close>, \<open>transactionManager\<close> and
  \<open>circuitBreaker\<close>, and the process.  During a run the frame adds the locals of
  \<open>sync\<close>: \<open>result\<close> and \<open>transactionId\<close>.
\<close>

record 'e engine =
  e_wikiPath :: "string option"
  e_tm :: TransactionManager
  e_cb :: CircuitBreaker
  e_proc :: "'e proc"

record 'e frame =
  f_result :: SyncResult
  f_transactionId :: "string option"
  f_wikiPath :: "string option"
  f_tm :: TransactionManager
  f_cb :: CircuitBreaker
  f_proc :: "'e proc"

definition engine_of :: "'e frame \<Rightarrow> 'e engine" where
  "engine_of fr = \<lparr> e_wikiPath = f_wikiPath fr, e_tm = f_tm fr, e_cb = f_cb fr, e_proc = f_proc fr \<rparr>"

definition new_result :: SyncResult where
  "new_result = \<lparr> success = True, changesApplied = 0, errors = [], conflicts = [], summary = [] \<rparr>"

definition enter :: "'e engine \<Rightarrow> 'e frame" where
  "enter eng =
     \<lparr> f_result = new_result, f_transactionId = None, f_wikiPath = e_wikiPath eng,
       f_tm = e_tm eng, f_cb = e_cb eng, f_proc = e_proc eng \<rparr>"

text \<open>One awaited step after another: a throw leaves the sequence.\<close>

definition await :: "('s \<Rightarrow> (jsval + 'a) \<times> 's) \<Rightarrow> ('a \<Rightarrow> 's \<Rightarrow> (jsval + 'b) \<times> 's) \<Rightarrow> 's \<Rightarrow> (jsval + 'b) \<times> 's" where
  "await m k s = (case m s of (Inl e, s1) \<Rightarrow> (Inl e, s1) | (Inr a, s1) \<Rightarrow> k a s1)"

definition in_proc :: "('e, 'a) action \<Rightarrow> 'e frame \<Rightarrow> (jsval + 'a) \<times> 'e frame" where
  "in_proc a fr = (case a (f_proc fr) of (r, p) \<Rightarrow> (r, fr\<lparr> f_proc := p \<rparr>))"

definition in_tm ::
  "(TransactionManager \<Rightarrow> 'e proc \<Rightarrow> (jsval + 'a) \<times> TransactionManager \<times> 'e proc)
     \<Rightarrow> 'e frame \<Rightarrow> (jsval + 'a) \<times> 'e frame" where
  "in_tm f fr = (case f (f_tm fr) (f_proc fr) of (r, tm, p) \<Rightarrow> (r, fr\<lparr> f_tm := tm, f_proc := p \<rparr>))"

definition info :: "string \<Rightarrow> 'e frame \<Rightarrow> (jsval + unit) \<times> 'e frame" where
  "info msg fr = (Inr (), fr\<lparr> f_proc := emit Info msg (f_proc fr) \<rparr>)"

text \<open>\<open>!this.wikiPath\<close>\<close>

definition falsy :: "string option \<Rightarrow> bool" where
  "falsy wp = (case wp of None \<Rightarrow> True | Some s \<Rightarrow> s = [])"

definition wiki_path_not_initialized :: jsval where
  "wiki_path_not_initialized = new_Error ''Wiki path not initialized''"

definition getRepoFiles :: "'e Runtime \<Rightarrow> 'e FileHandler \<Rightarrow> ActionConfig \<Rightarrow> ('e, MarkdownFile list) action" where
  "getRepoFiles rt fh config =
     (let repoPath = path_join [rt_cwd rt, syncFolder config] in
      await (call (fh_readMarkdownFiles fh repoPath))
        (\<lambda>files p. (Inr (map (\<lambda>f. f\<lparr> mf_relativePath := Some (rt_relative rt repoPath (mf_path f)) \<rparr>) files), p)))"

definition getWikiFiles :: "'e GitHubClient \<Rightarrow> string option \<Rightarrow> ('e, WikiPage list) action" where
  "getWikiFiles github wp p =
     (if falsy wp then (Inl wiki_path_not_initialized, p)
      else call (gh_getWikiPages github (the wp)) p)"

definition getCurrentRepoState :: "'e Runtime \<Rightarrow> 'e FileHandler \<Rightarrow> ActionConfig \<Rightarrow> ('e, FileState list) action" where
  "getCurrentRepoState rt fh config =
     await (getRepoFiles rt fh config)
       (\<lambda>repoFiles p.
          (Inr (map (\<lambda>f. \<lparr> fs_path = relative_or_path f,
                            fs_sha = (case mf_sha f of None \<Rightarrow> [] | Some s \<Rightarrow> s),
                            fs_content = mf_content f \<rparr>) repoFiles), p))"

definition getCurrentWikiState :: "'e GitHubClient \<Rightarrow> string option \<Rightarrow> ('e, PageState list) action" where
  "getCurrentWikiState github wp =
     await (getWikiFiles github wp)
       (\<lambda>wikiFiles p. (Inr (map (\<lambda>page. \<lparr> ps_name = wp_name page, ps_content = wp_content page \<rparr>) wikiFiles), p))"

definition detectChanges ::
  "'e Runtime \<Rightarrow> 'e GitHubClient \<Rightarrow> 'e FileHandler \<Rightarrow> ActionConfig \<Rightarrow> string option \<Rightarrow> ('e, Change list) action" where
  "detectChanges rt github fh config wp =
     await (getRepoFiles rt fh config) (\<lambda>repoFiles.
     await (getWikiFiles github wp) (\<lambda>wikiFiles p.
       (Inr (detect rt config (env p) repoFiles wikiFiles), p)))"

text \<open>\<open>change.content || ''\<close>\<close>

definition or_empty :: "string option \<Rightarrow> string" where
  "or_empty s = (case s of None \<Rightarrow> [] | Some t \<Rightarrow> t)"

definition resolveConflict :: "ActionConfig \<Rightarrow> Change \<Rightarrow> ('e, string) action" where
  "resolveConflict config change p =
     (case conflictStrategy config of
        RepoWins \<Rightarrow> (Inr (or_empty (c_content change)), p)
      | WikiWins \<Rightarrow> (Inr (or_empty (c_oldContent change)), p)
      | Skip \<Rightarrow> (Inl (new_Error ''Skipping due to conflict''), p)
      | Manual \<Rightarrow>
          (Inr (or_empty (c_content change)),
           emit Warning ''Applying repository version (manual resolution required)''
             (emit Warning (''Conflict detected in '' @ c_filePath change) p)))"

definition wiki_file_path :: "string option \<Rightarrow> Change \<Rightarrow> string" where
  "wiki_file_path wp change = path_join [the wp, c_wikiName change @ ''.md'']"

definition applyChange ::
  "'e Runtime \<Rightarrow> 'e GitHubClient \<Rightarrow> 'e FileHandler \<Rightarrow> ActionConfig \<Rightarrow> string option \<Rightarrow> Change \<Rightarrow> ('e, unit) action" where
  "applyChange rt github fh config wp change =
     (case c_type change of
        Create \<Rightarrow>
          if c_direction change = Some RepoToWiki \<and> \<not> falsy wp then
            call (fh_writeMarkdownFile fh (wiki_file_path wp change) (or_empty (c_content change)))
          else if c_direction change = Some WikiToRepo then
            await (call (fh_writeMarkdownFile fh (path_join [rt_cwd rt, c_filePath change])
                           (or_empty (c_content change))))
              (\<lambda>u. call (gh_createFile github (c_filePath change) (or_empty (c_content change))
                            (''Create '' @ c_filePath change @ '' from wiki'')))
          else (\<lambda>p. (Inr (), p))
      | Update \<Rightarrow>
          if c_direction change = Some RepoToWiki \<and> \<not> falsy wp then
            await (resolveConflict config change)
              (\<lambda>resolvedContent. call (fh_writeMarkdownFile fh (wiki_file_path wp change) resolvedContent))
          else if c_direction change = Some WikiToRepo then
            await (call (gh_getFileContent github (c_filePath change)))
              (\<lambda>fileInfo. call (gh_updateFile github (c_filePath change) (or_empty (c_content change))
                                  (snd fileInfo) (''Update '' @ c_filePath change @ '' from wiki'')))
          else (\<lambda>p. (Inr (), p))
      | Delete \<Rightarrow>
          if c_direction change = Some RepoToWiki \<and> \<not> falsy wp then
            call (fh_deleteMarkdownFile fh (wiki_file_path wp change))
          else if c_direction change = Some WikiToRepo then
            await (call (gh_getFileContent github (c_filePath change)))
              (\<lambda>fileInfo. call (gh_deleteFile github (c_filePath change) (snd fileInfo)
                                  (''Delete '' @ c_filePath change @ '' from wiki sync'')))
          else (\<lambda>p. (Inr (), p)))"

text \<open>The operation records the loop hands to the transaction and to the failure handler.\<close>

definition recorded_operation :: "Change \<Rightarrow> SyncOperation" where
  "recorded_operation change =
     \<lparr> op_type = c_type change, op_path = c_filePath change, op_content = c_content change,
       op_previousContent = c_oldContent change \<rparr>"

definition counted_operation :: "Change \<Rightarrow> SyncOperation" where
  "counted_operation change =
     \<lparr> op_type = c_type change, op_path = c_filePath change, op_content = c_content change,
       op_previousContent = None \<rparr>"

text \<open>The \<open>try\<close> block of one turn of the apply loop.\<close>

definition try_apply ::
  "'e Runtime \<Rightarrow> 'e GitHubClient \<Rightarrow> 'e FileHandler \<Rightarrow> ActionConfig \<Rightarrow> PartialFailureHandler \<Rightarrow> Change
     \<Rightarrow> 'e frame \<Rightarrow> (jsval + PartialFailureHandler) \<times> 'e frame" where
  "try_apply rt github fh config failureHandler change fr =
     (case execute rt (f_cb fr) (applyChange rt github fh config (f_wikiPath fr) change) (f_proc fr) of
        (Inl error, cb1, p1) \<Rightarrow> (Inl error, fr\<lparr> f_cb := cb1, f_proc := p1 \<rparr>)
      | (Inr u, cb1, p1) \<Rightarrow>
          (case recordOperation (f_tm fr) (recorded_operation change) p1 of
             (Inl error, tm1, p2) \<Rightarrow> (Inl error, fr\<lparr> f_cb := cb1, f_tm := tm1, f_proc := p2 \<rparr>)
           | (Inr v, tm1, p2) \<Rightarrow>
               (Inr (recordSuccess failureHandler (counted_operation change)),
                fr\<lparr> f_cb := cb1, f_tm := tm1,
                    f_result := (f_result fr)\<lparr> changesApplied := changesApplied (f_result fr) + 1 \<rparr>,
                    f_proc := emit Info (''Applied change: '' @ type_text (c_type change) @ '' ''
                                @ (if c_filePath change \<noteq> [] then c_filePath change else c_wikiName change)) p2 \<rparr>)))"

text \<open>
  The \<open>catch\<close> of one turn of the apply loop: it logs and classifies the error, pushes
  the per-change error, records the failure, which may itself throw, and throws a new
  error when the error is fatal or the handler says stop.  \<open>Inr\<close> is the handler with
  which the loop goes on.
\<close>

definition apply_failed ::
  "'e Runtime \<Rightarrow> PartialFailureHandler \<Rightarrow> Change \<Rightarrow> jsval \<Rightarrow> 'e frame
     \<Rightarrow> (jsval + PartialFailureHandler) \<times> 'e frame" where
  "apply_failed rt failureHandler change error fr =
     (case logError rt error (Some ''Apply change'') (f_proc fr) of
        (Inl thrown, p1) \<Rightarrow> (Inl thrown, fr\<lparr> f_proc := p1 \<rparr>)
      | (Inr u, p1) \<Rightarrow>
          (case classify (rt_js rt) error of
             Inl thrown \<Rightarrow> (Inl thrown, fr\<lparr> f_proc := p1 \<rparr>)
           | Inr errorContext \<Rightarrow>
               (let fr2 = fr\<lparr> f_proc := p1,
                               f_result := (f_result fr)\<lparr> errors := errors (f_result fr)
                                  @ [\<lparr> se_change = Some change, se_phase = None,
                                        se_error = ctx_message errorContext \<rparr>] \<rparr> \<rparr>
                in case recordFailure failureHandler (counted_operation change) error of
                     (Inl exceeded, failureHandler1) \<Rightarrow> (Inl exceeded, fr2)
                   | (Inr v, failureHandler1) \<Rightarrow>
                       if fatal errorContext \<or> \<not> shouldContinue failureHandler1 then
                         (case completion (js_ToString (rt_js rt) (ctx_message errorContext)) of
                            Inl thrown \<Rightarrow> (Inl thrown, fr2)
                          | Inr text \<Rightarrow>
                              (Inl (new_Error (''Fatal error or too many failures: '' @ text)), fr2))
                       else (Inr failureHandler1, fr2))))"

text \<open>The apply loop.\<close>

fun apply_changes ::
  "'e Runtime \<Rightarrow> 'e GitHubClient \<Rightarrow> 'e FileHandler \<Rightarrow> ActionConfig \<Rightarrow> PartialFailureHandler \<Rightarrow> Change list
     \<Rightarrow> 'e frame \<Rightarrow> (jsval + PartialFailureHandler) \<times> 'e frame" where
  "apply_changes rt github fh config failureHandler [] fr = (Inr failureHandler, fr)"
| "apply_changes rt github fh config failureHandler (change # rest) fr =
     (case try_apply rt github fh config failureHandler change fr of
        (Inr failureHandler1, fr1) \<Rightarrow> apply_changes rt github fh config failureHandler1 rest fr1
      | (Inl error, fr1) \<Rightarrow>
          (case apply_failed rt failureHandler change error fr1 of
             (Inl thrown, fr2) \<Rightarrow> (Inl thrown, fr2)
           | (Inr failureHandler1, fr2) \<Rightarrow> apply_changes rt github fh config failureHandler1 rest fr2))"

definition clone_step :: "'e GitHubClient \<Rightarrow> string option \<Rightarrow> ('e, unit) action" where
  "clone_step github wp p =
     (if falsy wp then (Inl wiki_path_not_initialized, p)
      else await (call (gh_cloneWiki github (the wp))) (\<lambda>localPath q. (Inr (), q)) p)"

definition push_step :: "'e GitHubClient \<Rightarrow> string option \<Rightarrow> int \<Rightarrow> ('e, unit) action" where
  "push_step github wp applied p =
     (if falsy wp then (Inl wiki_path_not_initialized, p)
      else await (call (gh_commitWikiChanges github (the wp)
                          (''Sync from repository: '' @ show_int applied @ '' changes'')))
             (\<lambda>u. call (gh_pushWikiChanges github (the wp))) p)"

text \<open>The \<open>try\<close> block of \<open>sync\<close>.\<close>

definition sync_try ::
  "'e Runtime \<Rightarrow> 'e GitHubClient \<Rightarrow> 'e FileHandler \<Rightarrow> ActionConfig \<Rightarrow> 'e frame \<Rightarrow> (jsval + unit) \<times> 'e frame" where
  "sync_try rt github fh config =
     await (in_tm (beginTransaction rt)) (\<lambda>transactionId.
     await (\<lambda>fr. (Inr (), fr\<lparr> f_transactionId := Some transactionId,
                               f_wikiPath := Some (path_join [rt_tmpdir rt,
                                  ''wiki-sync-'' @ show_int (rt_now rt (env (f_proc fr)))]) \<rparr>)) (\<lambda>u.
     await (\<lambda>fr. in_proc (retryWithBackoff rt (clone_step github (f_wikiPath fr))) fr) (\<lambda>u.
     await (\<lambda>fr. info (''Wiki cloned to: '' @ or_empty (f_wikiPath fr)) fr) (\<lambda>u.
     await (in_proc (getCurrentRepoState rt fh config)) (\<lambda>currentRepoState.
     await (\<lambda>fr. in_proc (getCurrentWikiState github (f_wikiPath fr)) fr) (\<lambda>currentWikiState.
     await (in_tm (\<lambda>tm. createCheckpoint rt tm currentRepoState currentWikiState)) (\<lambda>checkpoint.
     await (\<lambda>fr. in_proc (detectChanges rt github fh config (f_wikiPath fr)) fr) (\<lambda>changes.
     await (info (''Detected '' @ show_int (int (length changes)) @ '' changes'')) (\<lambda>u.
     await (apply_changes rt github fh config default_PartialFailureHandler changes) (\<lambda>failureHandler.
     await (\<lambda>fr. (Inr (),
              if length (failedOperations failureHandler) > 0
              then fr\<lparr> f_proc := emit Warning (''Partial sync completed: ''
                       @ show_int (int (length (successfulOperations failureHandler))) @ '' succeeded, ''
                       @ show_int (int (length (failedOperations failureHandler))) @ '' failed'') (f_proc fr) \<rparr>
              else fr)) (\<lambda>u.
     await (\<lambda>fr. if changesApplied (f_result fr) > 0
                  then await (in_proc (retryWithBackoff rt
                                 (push_step github (f_wikiPath fr) (changesApplied (f_result fr)))))
                         (\<lambda>u. info ''Wiki changes pushed successfully'') fr
                  else (Inr (), fr)) (\<lambda>u.
     await (in_tm commit) (\<lambda>u fr.
       (Inr (), fr\<lparr> f_result := (f_result fr)\<lparr> summary :=
           ''Synchronization completed: '' @ show_int (changesApplied (f_result fr))
           @ '' changes applied, '' @ show_int (int (length (errors (f_result fr)))) @ '' errors'' \<rparr> \<rparr>))))))))))))))"

text \<open>
  The value of \<open>error instanceof Error ? error.message : String(error)\<close> outside a
  template literal: the message of an \<open>Error\<close> is taken as it is.
\<close>

definition error_value :: "Coercions \<Rightarrow> jsval \<Rightarrow> jsval + jsval" where
  "error_value js error =
     (case error of
        JObj ErrorPrototype ps \<Rightarrow> Inr (error_message ps)
      | _ \<Rightarrow> map_sum id JStr (completion (js_String js error)))"

text \<open>
  The rollback inside the \<open>catch\<close> block of \<open>sync\<close>, with its own \<open>try\<close>: a failure of the
  rollback is printed and dropped; \<open>Inl\<close> is what printing it throws.
\<close>

definition rollback_step :: "'e Runtime \<Rightarrow> 'e GitHubClient \<Rightarrow> 'e frame \<Rightarrow> (jsval + unit) \<times> 'e frame" where
  "rollback_step rt github fr =
     (if \<not> falsy (f_transactionId fr) \<and> isInTransaction (f_tm fr) then
        (case rollback (rt_js rt) github (f_tm fr) (f_proc fr) of
           (Inr u, tm2, p2) \<Rightarrow> (Inr (), fr\<lparr> f_tm := tm2, f_proc := p2 \<rparr>)
         | (Inl rollbackError, tm2, p2) \<Rightarrow>
             (case error_text (rt_js rt) rollbackError of
                Inl thrown \<Rightarrow> (Inl thrown, fr\<lparr> f_tm := tm2, f_proc := p2 \<rparr>)
              | Inr text \<Rightarrow>
                  (Inr (), fr\<lparr> f_tm := tm2, f_proc := emit Error (''Rollback failed: '' @ text) p2 \<rparr>)))
      else (Inr (), fr))"

text \<open>
  The \<open>catch\<close> block of \<open>sync\<close>: the value it throws and the frame it leaves.  It ends
  with \<open>throw error\<close>; a statement before that which throws leaves the block at once,
  with its own error.
\<close>

definition sync_catch :: "'e Runtime \<Rightarrow> 'e GitHubClient \<Rightarrow> jsval \<Rightarrow> 'e frame \<Rightarrow> jsval \<times> 'e frame" where
  "sync_catch rt github error fr =
     (case logError rt error (Some ''Sync operation'') (f_proc fr) of
        (Inl thrown, p1) \<Rightarrow> (thrown, fr\<lparr> f_proc := p1 \<rparr>)
      | (Inr u, p1) \<Rightarrow>
          (let fr1 = fr\<lparr> f_proc := p1, f_result := (f_result fr)\<lparr> success := False \<rparr> \<rparr> in
           case error_value (rt_js rt) error of
             Inl thrown \<Rightarrow> (thrown, fr1)
           | Inr v \<Rightarrow>
               (case rollback_step rt github
                       (fr1\<lparr> f_result := (f_result fr1)\<lparr> errors := errors (f_result fr1)
                              @ [\<lparr> se_change = None, se_phase = Some ''sync'', se_error = v \<rparr>] \<rparr> \<rparr>) of
                  (Inl thrown, fr2) \<Rightarrow> (thrown, fr2)
                | (Inr w, fr2) \<Rightarrow> (error, fr2))))"

text \<open>
  \<open>cleanup\<close>, called by the \<open>finally\<close> block when a wiki path is set: a failure of
  \<open>fs.rm\<close> is printed as a warning; \<open>Inl\<close> is what printing it throws.
\<close>

definition cleanup :: "'e Runtime \<Rightarrow> 'e frame \<Rightarrow> (jsval + unit) \<times> 'e frame" where
  "cleanup rt fr =
     (if falsy (f_wikiPath fr) then (Inr (), fr)
      else (case call (rt_rm rt (the (f_wikiPath fr))) (f_proc fr) of
              (Inr u, p1) \<Rightarrow> (Inr (), fr\<lparr> f_proc := emit Info ''Cleanup completed'' p1 \<rparr>)
            | (Inl error, p1) \<Rightarrow>
                (case error_text (rt_js rt) error of
                   Inl thrown \<Rightarrow> (Inl thrown, fr\<lparr> f_proc := p1 \<rparr>)
                 | Inr text \<Rightarrow> (Inr (), fr\<lparr> f_proc := emit Warning (''Cleanup failed: '' @ text) p1 \<rparr>))))"

text \<open>
  \<open>sync\<close>: the caller receives the result when the \<open>try\<close> block completes and a thrown
  value otherwise: what the \<open>catch\<close> block throws, or what the \<open>finally\<close> block throws,
  which takes the place of either outcome.  The locals end with the call.
\<close>

definition sync_finally ::
  "'e Runtime \<Rightarrow> (jsval + SyncResult) \<Rightarrow> 'e frame \<Rightarrow> (jsval + SyncResult) \<times> 'e engine" where
  "sync_finally rt outcome fr =
     (case cleanup rt fr of
        (Inl thrown, fr1) \<Rightarrow> (Inl thrown, engine_of fr1)
      | (Inr u, fr1) \<Rightarrow> (outcome, engine_of fr1))"

definition sync ::
  "'e Runtime \<Rightarrow> 'e GitHubClient \<Rightarrow> 'e FileHandler \<Rightarrow> ActionConfig \<Rightarrow> 'e engine \<Rightarrow> (jsval + SyncResult) \<times> 'e engine" where
  "sync rt github fh config eng =
     (case sync_try rt github fh config (enter eng) of
        (Inr u, fr1) \<Rightarrow> sync_finally rt (Inr (f_result fr1)) fr1
      | (Inl error, fr1) \<Rightarrow>
          (case sync_catch rt github error fr1 of (thrown, fr2) \<Rightarrow> sync_finally rt (Inl thrown) fr2))"



definition op1 :: SyncOperation where
  "op1 = \<lparr> op_type = Create, op_path = ''a.md'', op_content = Some ''x'', op_previousContent = None \<rparr>"

text \<open>
  Conversions for the examples.  They convert as Node does on the values that occur in
  the examples: numbers that are integers below \<open>10\<^sup>2\<^sup>1\<close> in magnitude, strings that
  are blank or decimal digits with an optional sign, and objects without conversion
  methods of their own, of which one without a prototype has no text and no number, an
  \<open>Error\<close> prints its message after its name, and any other prints as
  \<open>[object Object]\<close>; \<open>JSON.stringify\<close> refuses a value that holds a BigInt or refers
  back to itself.  On other values what they return is arbitrary, and of the JSON text
  only the braces are kept.
\<close>

definition is_blank :: "char \<Rightarrow> bool" where
  "is_blank c = (c = CHR '' '' \<or> c = CHR 0x09 \<or> c = CHR 0x0A \<or> c = CHR 0x0D)"

definition is_digit :: "char \<Rightarrow> bool" where
  "is_digit c = (let n = (of_char c :: nat) in 48 \<le> n \<and> n \<le> 57)"

definition digits_value :: "string \<Rightarrow> int" where
  "digits_value ds = foldl (\<lambda>acc c. 10 * acc + (int (of_char c) - 48)) 0 ds"

definition trim_blanks :: "string \<Rightarrow> string" where
  "trim_blanks s = rev (dropWhile is_blank (rev (dropWhile is_blank s)))"

definition decimal_number :: "string \<Rightarrow> jsnum" where
  "decimal_number s =
     (let t = trim_blanks s in
      if t = [] then Finite 0
      else if hd t = CHR ''-'' \<and> tl t \<noteq> [] \<and> list_all is_digit (tl t) then Finite (of_int (- digits_value (tl t)))
      else if hd t = CHR ''+'' \<and> tl t \<noteq> [] \<and> list_all is_digit (tl t) then Finite (of_int (digits_value (tl t)))
      else if list_all is_digit t then Finite (of_int (digits_value t))
      else NaN)"

definition plain_object_text :: "jsval \<Rightarrow> string + string" where
  "plain_object_text v =
     (case v of
        JObj NullPrototype ps \<Rightarrow> Inl ''Cannot convert object to primitive value''
      | JObj ErrorPrototype ps \<Rightarrow>
          (case error_message ps of
             JStr m \<Rightarrow> Inr (if m = [] then ''Error'' else ''Error: '' @ m)
           | _ \<Rightarrow> Inr ''Error'')
      | _ \<Rightarrow> Inr ''[object Object]'')"

fun json_refused :: "jsval \<Rightarrow> string option" where
  "json_refused (JBigInt i) = Some ''Do not know how to serialize a BigInt''"
| "json_refused (JCycle n) = Some ''Converting circular structure to JSON''"
| "json_refused (JObj p ps) =
     (case List.find (\<lambda>r. r \<noteq> None) (map (\<lambda>entry. json_refused (snd entry)) ps) of
        Some r \<Rightarrow> r
      | None \<Rightarrow> None)"
| "json_refused v = None"

definition example_coercions :: Coercions where
  "example_coercions =
     \<lparr> number_text = (\<lambda>r. show_int \<lfloor>r\<rfloor>),
       text_number = decimal_number,
       bigint_number = (\<lambda>i. Finite (of_int i)),
       object_text = plain_object_text,
       object_number = (\<lambda>v. map_sum id decimal_number (plain_object_text v)),
       json_text = (\<lambda>v. case json_refused v of Some msg \<Rightarrow> Inl msg | None \<Rightarrow> Inr ''{}'') \<rparr>"

text \<open>A runtime whose environment is just the clock, and two operations on it.\<close>

definition clock_runtime :: "int Runtime" where
  "clock_runtime =
     \<lparr> rt_js = example_coercions, rt_now = (\<lambda>t. t), rt_sleep = (\<lambda>d t. t + d), rt_randomUUID = (\<lambda>t. (''uuid-'' @ show_int t, t + 1)),
       rt_digest = (\<lambda>repo wiki. concat (map fst repo @ map fst wiki)),
       rt_tmpdir = ''/tmp'', rt_cwd = ''/work'', rt_relative = (\<lambda>from to. drop (length from + 1) to),
       rt_access = (\<lambda>path t. False), rt_rm = (\<lambda>path t. (Inr (), t)) \<rparr>"

definition at_time :: "int \<Rightarrow> int proc" where
  "at_time t = \<lparr> env = t, console = [] \<rparr>"

definition failing :: "(int, string) action" where
  "failing p = (Inl (new_Error ''Failed''), p\<lparr> env := env p + 1 \<rparr>)"

definition succeeding :: "(int, string) action" where
  "succeeding p = (Inr ''Success'', p\<lparr> env := env p + 1 \<rparr>)"

definition breaker_closed2 :: CircuitBreaker where
  "breaker_closed2 =
     \<lparr> failureCount = 2, lastFailureTime = 5, cb_state = CLOSED, threshold = 3, timeout = 1000 \<rparr>"

definition breaker_open3 :: CircuitBreaker where
  "breaker_open3 =
     \<lparr> failureCount = 3, lastFailureTime = 10, cb_state = OPEN, threshold = 3, timeout = 1000 \<rparr>"

text \<open>A runtime whose environment is the list of paths present on disk.\<close>

definition disk_runtime :: "string list Runtime" where
  "disk_runtime =
     \<lparr> rt_js = example_coercions, rt_now = (\<lambda>e. 0), rt_sleep = (\<lambda>d e. e), rt_randomUUID = (\<lambda>e. (''uuid'', e)),
       rt_digest = (\<lambda>repo wiki. concat (map fst repo @ map fst wiki)),
       rt_tmpdir = ''/tmp'', rt_cwd = ''/work'', rt_relative = (\<lambda>from to. drop (length from + 1) to),
       rt_access = (\<lambda>path e. path \<in> set e), rt_rm = (\<lambda>path e. (Inr (), e)) \<rparr>"

definition docs_config :: ActionConfig where
  "docs_config =
     \<lparr> token = ''t'', repository = ''o/r'', owner = ''o'', repo = ''r'', syncFolder = ''docs'',
       wikiRepo = ''https://github.com/o/r.wiki.git'', conflictStrategy = RepoWins,
       syncDeletes = Some True \<rparr>"

definition repo_file :: "string \<Rightarrow> string \<Rightarrow> MarkdownFile" where
  "repo_file rel content =
     \<lparr> mf_path = ''/work/docs/'' @ rel, mf_relativePath = Some rel, mf_name = rel,
       mf_content = content, mf_sha = None, mf_lastModified = 1000 \<rparr>"

definition wiki_page :: "string \<Rightarrow> string \<Rightarrow> WikiPage" where
  "wiki_page name content =
     \<lparr> wp_name = name, wp_path = name @ ''.md'', wp_content = content, wp_lastModified = Some 2000 \<rparr>"

definition tm_open :: TransactionManager where
  "tm_open =
     \<lparr> transaction = Some \<lparr> tx_id = ''uuid-7'', operations = [op1], status = Pending, tx_checkpoints = [] \<rparr>,
       checkpoints = [] \<rparr>"


definition http_error :: "int \<Rightarrow> string \<Rightarrow> jsval" where
  "http_error code msg =
     JObj ErrorPrototype
       [(''message'', JStr msg), (''stack'', JStr (''HttpError: '' @ msg)), (''status'', JNum (Finite (of_int code)))]"









text \<open>A client whose clone always fails, and a file handler on an empty folder.\<close>

definition clone_fails_client :: "int GitHubClient" where
  "clone_fails_client =
     \<lparr> gh_getFileContent = (\<lambda>path t. (Inl (http_error 404 ''Not Found''), t + 1)),
       gh_createFile = (\<lambda>path content message t. (Inr (), t + 1)),
       gh_updateFile = (\<lambda>path content sha message t. (Inr (), t + 1)),
       gh_deleteFile = (\<lambda>path sha message t. (Inr (), t + 1)),
       gh_cloneWiki = (\<lambda>localPath t. (Inl (new_Error ''Clone failed''), t + 1)),
       gh_getWikiPages = (\<lambda>wikiPath t. (Inr [], t + 1)),
       gh_commitWikiChanges = (\<lambda>wikiPath message t. (Inr (), t + 1)),
       gh_pushWikiChanges = (\<lambda>wikiPath t. (Inr (), t + 1)) \<rparr>"

text \<open>
  An error that holds a reference back to itself, as the errors of HTTP libraries do
  whose response points to the request and the request to the response, and a client
  whose clone fails with it.
\<close>

definition circular_error :: jsval where
  "circular_error =
     JObj ErrorPrototype
       [ (''message'', JStr ''Clone failed''),
         (''stack'', JStr ''Error: Clone failed''),
         (''response'', JObj ObjectPrototype [(''status'', JNum (Finite 500)), (''error'', JCycle 1)]) ]"

definition circular_clone_client :: "int GitHubClient" where
  "circular_clone_client =
     clone_fails_client\<lparr> gh_cloneWiki := (\<lambda>localPath t. (Inl circular_error, t + 1)) \<rparr>"

definition empty_folder :: "int FileHandler" where
  "empty_folder =
     \<lparr> fh_readMarkdownFiles = (\<lambda>directory t. (Inr [], t + 1)),
       fh_writeMarkdownFile = (\<lambda>path content t. (Inr (), t + 1)),
       fh_deleteMarkdownFile = (\<lambda>path t. (Inr (), t + 1)) \<rparr>"

definition new_engine :: "int engine" where
  "new_engine =
     \<lparr> e_wikiPath = None, e_tm = new_TransactionManager, e_cb = default_CircuitBreaker,
       e_proc = at_time 0 \<rparr>"




section \<open>Properties of the partial failure handler\<close>

lemma recordFailures_state:
  "snd (recordFailures h fs) = h\<lparr> failedOperations := failedOperations h @ fs \<rparr>"
proof (induction fs arbitrary: h)
  case Nil
  show ?case by simp
next
  case (Cons f fs)
  obtain r h' where step: "recordFailure h (fst f) (snd f) = (r, h')"
    by (cases "recordFailure h (fst f) (snd f)")
  then have h': "h' = h\<lparr> failedOperations := failedOperations h @ [f] \<rparr>"
    by (auto simp: recordFailure_def Let_def split: if_splits)
  show ?case
    using step Cons.IH [of h'] by (cases "recordFailures h' fs") (simp add: h')
qed

lemma recordFailures_results:
  "int (length (failedOperations h) + length fs) \<le> maxFailureThreshold h \<Longrightarrow>
   fst (recordFailures h fs) = replicate (length fs) (Inr ())"
proof (induction fs arbitrary: h)
  case Nil
  then show ?case by simp
next
  case (Cons f fs)
  let ?h' = "h\<lparr> failedOperations := failedOperations h @ [(fst f, snd f)] \<rparr>"
  from Cons.prems have step: "recordFailure h (fst f) (snd f) = (Inr (), ?h')"
    by (simp add: recordFailure_def Let_def)
  from Cons.prems have "int (length (failedOperations ?h') + length fs) \<le> maxFailureThreshold ?h'"
    by simp
  from Cons.IH [OF this] step show ?case
    by (cases "recordFailures ?h' fs") simp
qed

text \<open>
  C8.  A fresh handler with threshold \<open>N\<close>: any run of at most \<open>N\<close> \<open>recordFailure\<close>
  calls returns normally each time and leaves \<open>shouldContinue()\<close> equal to
  \<open>continueOnError\<close> (also after exactly \<open>N\<close> failures); the call after \<open>N\<close> recorded
  failures throws the threshold-exceeded error; and \<open>shouldContinue()\<close> is always
  \<open>continueOnError && failedOperations.length <= maxFailureThreshold\<close>.
\<close>

theorem partial_failure_threshold:
  fixes N :: nat
  assumes "length fs \<le> N"
  shows "fst (recordFailures (new_PartialFailureHandler c (int N)) fs) = replicate (length fs) (Inr ())
       \<and> shouldContinue (snd (recordFailures (new_PartialFailureHandler c (int N)) fs)) = c
       \<and> (length fs = N \<longrightarrow>
            fst (recordFailure (snd (recordFailures (new_PartialFailureHandler c (int N)) fs)) operation error)
              = Inl (threshold_exceeded (int N)))
       \<and> (\<forall>g. shouldContinue g =
              (continueOnError g \<and> int (length (failedOperations g)) \<le> maxFailureThreshold g))"
proof -
  let ?init = "new_PartialFailureHandler c (int N)"
  let ?h = "snd (recordFailures ?init fs)"
  have h: "?h = ?init\<lparr> failedOperations := fs \<rparr>"
    by (simp add: recordFailures_state new_PartialFailureHandler_def del: recordFailures.simps)
  have 1: "fst (recordFailures ?init fs) = replicate (length fs) (Inr ())"
    using assms(1) recordFailures_results [of ?init fs] by (simp add: new_PartialFailureHandler_def)
  have 2: "shouldContinue ?h = c"
    unfolding h using assms(1) by (simp add: shouldContinue_def new_PartialFailureHandler_def)
  have 3: "length fs = N \<longrightarrow> fst (recordFailure ?h operation error) = Inl (threshold_exceeded (int N))"
    unfolding h by (simp add: recordFailure_def Let_def new_PartialFailureHandler_def)
  have 4: "\<forall>g. shouldContinue g =
              (continueOnError g \<and> int (length (failedOperations g)) \<le> maxFailureThreshold g)"
    by (simp add: shouldContinue_def)
  from 1 2 3 4 show ?thesis by blast
qed

theorem partial_failure_threshold_witness:
  "length [(op1, JStr ''e1''), (op1, JStr ''e2''), (op1, JStr ''e3'')] \<le> (3::nat)
   \<and> fst (recordFailures (new_PartialFailureHandler True 3)
            [(op1, JStr ''e1''), (op1, JStr ''e2''), (op1, JStr ''e3'')]) = [Inr (), Inr (), Inr ()]
   \<and> shouldContinue (snd (recordFailures (new_PartialFailureHandler True 3)
            [(op1, JStr ''e1''), (op1, JStr ''e2''), (op1, JStr ''e3'')])) = True
   \<and> fst (recordFailure (snd (recordFailures (new_PartialFailureHandler True 3)
            [(op1, JStr ''e1''), (op1, JStr ''e2''), (op1, JStr ''e3'')])) op1 (JStr ''e4''))
       = Inl (threshold_exceeded 3)"
proof -
  let ?fs = "[(op1, JStr ''e1''), (op1, JStr ''e2''), (op1, JStr ''e3'')]"
  have len: "length ?fs \<le> (3::nat)" by simp
  have eq: "length ?fs = (3::nat)" by simp
  have A: "int (3::nat) = 3" by simp
  have B: "replicate (length ?fs) (Inr ()) = [Inr (), Inr (), Inr ()::jsval + unit]" by simp
  note T = partial_failure_threshold [OF len, of True op1 "JStr ''e4''", unfolded A B]
  from T len eq show ?thesis by blast
qed

section \<open>Properties of the error classifier\<close>

lemma starts_with_prefix: "starts_with p s = prefix p s"
  by (induction p s rule: starts_with.induct) simp_all

lemma contains_sublist: "contains p s = sublist p s"
  by (induction s) (simp_all add: starts_with_prefix sublist_Cons_right del: starts_with.simps)

lemma regex_test_mentions: "regex_test ws text = spec_mentions ws text"
  by (simp add: regex_test_def spec_mentions_def contains_ci_def contains_sublist)

lemma first_pattern_spec: "first_pattern ERROR_PATTERNS text = spec_by_patterns text"
  by (simp add: ERROR_PATTERNS_def spec_by_patterns_def regex_test_mentions)

lemma map_of_find: "map_of ps k = map_option snd (find (\<lambda>entry. fst entry = k) ps)"
  by (induction ps) auto

lemma getRecoveryStrategy_table: "getRecoveryStrategy t = spec_flags t"
  by (cases t) (simp_all add: getRecoveryStrategy_def strategies_def)

lemma detect_by_code_spec:
  "detect_by_code js error message = completion (spec_by_code js error message)"
  by (cases error)
     (auto simp: detect_by_code_def spec_by_code_def object_with_def prop_of_def has_prop_def
        get_prop_def spec_carries_def map_of_find completion_def first_pattern_spec
        split: sum.splits option.splits)

lemma detectErrorType_spec:
  "detectErrorType js error message = completion (spec_category js error message)"
  by (cases error)
     (auto simp: detectErrorType_def spec_category_def detect_by_code_spec object_with_def prop_of_def
        has_prop_def get_prop_def spec_carries_def map_of_find completion_def
        split: sum.splits option.splits)

lemma getErrorMessage_spec: "getErrorMessage js error = completion (spec_message js error)"
  by (cases error)
     (auto simp: getErrorMessage_def spec_message_def error_message_def has_prop_def get_prop_def
        spec_carries_def map_of_find completion_def
        split: sum.splits option.splits proto.splits)

text \<open>
  C7.  \<open>classify\<close> is a deterministic function of the thrown value and of the
  conversions of the runtime, and it is the classification of the specification: it
  throws the \<open>TypeError\<close> of a conversion that throws (\<open>String\<close> of an error that is no
  \<open>Error\<close> and no string, or of its \<open>message\<close> property; \<open>Number\<close> of its \<open>status\<close>
  property; the text of the message when the patterns are reached), and on every other
  value it returns the one category that the detection order selects (status, then
  system code, then the message patterns in order, else Unknown) with the flags of the
  fixed table.  The table gives every category, the also never returned
  ValidationError, its pair of flags.
\<close>

theorem classify_as_specified:
  "classify js error = spec_classify js error \<and> getRecoveryStrategy t = spec_flags t"
  by (auto simp: classify_def spec_classify_def getErrorMessage_spec detectErrorType_spec
        getRecoveryStrategy_table completion_def Let_def split: sum.splits)

text \<open>
  The errors of the repository's tests of \<open>classify\<close>, a status given as a string, and
  two messages that only the patterns decide.
\<close>

theorem classify_as_specified_witness:
  "spec_classify example_coercions
      (JObj ObjectPrototype [(''status'', JNum (Finite 403)), (''message'', JStr ''API rate limit exceeded'')])
    = Inr \<lparr> ctx_type = RATE_LIMIT, ctx_message = JStr ''API rate limit exceeded'',
            ctx_details = JObj ObjectPrototype
              [(''status'', JNum (Finite 403)), (''message'', JStr ''API rate limit exceeded'')],
            retryable = True, fatal = False \<rparr>
   \<and> spec_classify example_coercions
        (JObj ObjectPrototype [(''status'', JNum (Finite 401)), (''message'', JStr ''Unauthorized'')])
      = Inr \<lparr> ctx_type = AUTH_ERROR, ctx_message = JStr ''Unauthorized'',
              ctx_details = JObj ObjectPrototype
                [(''status'', JNum (Finite 401)), (''message'', JStr ''Unauthorized'')],
              retryable = False, fatal = True \<rparr>
   \<and> spec_classify example_coercions
        (JObj ObjectPrototype [(''code'', JStr ''ENOENT''), (''message'', JStr ''File not found'')])
      = Inr \<lparr> ctx_type = FILE_NOT_FOUND, ctx_message = JStr ''File not found'',
              ctx_details = JObj ObjectPrototype
                [(''code'', JStr ''ENOENT''), (''message'', JStr ''File not found'')],
              retryable = False, fatal = False \<rparr>
   \<and> spec_classify example_coercions
        (JObj ObjectPrototype [(''code'', JStr ''ECONNREFUSED''), (''message'', JStr ''Connection refused'')])
      = Inr \<lparr> ctx_type = NETWORK_ERROR, ctx_message = JStr ''Connection refused'',
              ctx_details = JObj ObjectPrototype
                [(''code'', JStr ''ECONNREFUSED''), (''message'', JStr ''Connection refused'')],
              retryable = True, fatal = False \<rparr>
   \<and> spec_classify example_coercions (new_Error ''Something went wrong'')
      = Inr \<lparr> ctx_type = UNKNOWN, ctx_message = JStr ''Something went wrong'',
              ctx_details = new_Error ''Something went wrong'', retryable = True, fatal = False \<rparr>
   \<and> spec_classify example_coercions (JStr ''Simple error string'')
      = Inr \<lparr> ctx_type = UNKNOWN, ctx_message = JStr ''Simple error string'',
              ctx_details = JStr ''Simple error string'', retryable = True, fatal = False \<rparr>
   \<and> spec_classify example_coercions (JObj ObjectPrototype [(''status'', JStr ''404'')])
      = Inr \<lparr> ctx_type = FILE_NOT_FOUND, ctx_message = JStr ''[object Object]'',
              ctx_details = JObj ObjectPrototype [(''status'', JStr ''404'')],
              retryable = False, fatal = False \<rparr>
   \<and> spec_classify example_coercions (JStr ''Request TIMEOUT after 30s'')
      = Inr \<lparr> ctx_type = NETWORK_ERROR, ctx_message = JStr ''Request TIMEOUT after 30s'',
              ctx_details = JStr ''Request TIMEOUT after 30s'', retryable = True, fatal = False \<rparr>
   \<and> spec_classify example_coercions
        (JObj ObjectPrototype [(''status'', JNum (Finite 500)), (''message'', JStr ''Merge conflict in a.md'')])
      = Inr \<lparr> ctx_type = CONFLICT, ctx_message = JStr ''Merge conflict in a.md'',
              ctx_details = JObj ObjectPrototype
                [(''status'', JNum (Finite 500)), (''message'', JStr ''Merge conflict in a.md'')],
              retryable = False, fatal = False \<rparr>"
  unfolding classify_as_specified [THEN conjunct1, symmetric]
  by code_simp

text \<open>
  \<open>classify\<close> is not total: it throws on an object without a prototype, which has no
  text, and on an error whose status is a symbol, which has no number.
\<close>

theorem classify_throws:
  "classify example_coercions (JObj NullPrototype [])
     = Inl (new_TypeError ''Cannot convert object to primitive value'')
   \<and> classify example_coercions (JObj ErrorPrototype [(''message'', JStr ''Forbidden''), (''status'', JSymbol ''code'')])
     = Inl (new_TypeError ''Cannot convert a Symbol value to a number'')"
  by code_simp

section \<open>Properties of the circuit breaker\<close>

lemma triple: "x = (fst x, fst (snd x), snd (snd x))"
  by simp

lemma execute_cases:
  "execute rt cb operation p =
     (if cb_state cb = OPEN \<and> rt_now rt (env p) - lastFailureTime cb \<le> timeout cb
      then (Inl breaker_open_error, cb, p)
      else case operation p of
          (Inr v, p1) \<Rightarrow>
            if cb_state cb = CLOSED then (Inr v, cb, p1)
            else (Inr v, cb\<lparr> failureCount := 0, cb_state := CLOSED \<rparr>, emit Info ''Circuit breaker reset'' p1)
        | (Inl e, p1) \<Rightarrow>
            (Inl e, cb_recordFailure rt (if cb_state cb = OPEN then cb\<lparr> cb_state := HALF_OPEN \<rparr> else cb) p1))"
  by (cases "cb_state cb")
     (auto simp: execute_def Let_def cb_reset_def split: prod.splits sum.splits)

text \<open>
  C6 (as amended).  For a breaker with a positive threshold, between calls Closed below
  the threshold or Open at or above it: a failing call while Closed adds one to
  \<open>failureCount\<close>, stamps \<open>lastFailureTime\<close>, and opens the breaker exactly when the count
  reaches the threshold; a successful call while Closed leaves the breaker, and so the
  count, as it was; while Open and not more than \<open>timeout\<close> after the last failure the
  call fails with the breaker-open error, the operation not run and nothing changed;
  once more than \<open>timeout\<close> has passed the operation is run as a trial, whose success
  sets the count to 0 and closes the breaker and whose failure leaves it Open with a new
  \<open>lastFailureTime\<close>.  Every call keeps the breaker in such a state, and a new breaker
  with a positive threshold is in one.
\<close>

theorem breaker_transitions:
  assumes "breaker_settled cb" and "execute rt cb operation p = (r, cb', p')"
  shows "breaker_settled cb'
    \<and> (cb_state cb = CLOSED \<longrightarrow> operation p = (Inl e, p1) \<longrightarrow>
          r = Inl e \<and> failureCount cb' = failureCount cb + 1
          \<and> lastFailureTime cb' = rt_now rt (env p1)
          \<and> (cb_state cb' = OPEN) = (failureCount cb + 1 = threshold cb)
          \<and> (cb_state cb' = CLOSED) = (failureCount cb + 1 < threshold cb))
    \<and> (cb_state cb = CLOSED \<longrightarrow> operation p = (Inr v, p1) \<longrightarrow> r = Inr v \<and> cb' = cb \<and> p' = p1)
    \<and> (cb_state cb = OPEN \<longrightarrow> rt_now rt (env p) - lastFailureTime cb \<le> timeout cb \<longrightarrow>
          r = Inl breaker_open_error \<and> cb' = cb \<and> p' = p)
    \<and> (cb_state cb = OPEN \<longrightarrow> rt_now rt (env p) - lastFailureTime cb > timeout cb \<longrightarrow>
          operation p = (Inr v, p1) \<longrightarrow>
          r = Inr v \<and> failureCount cb' = 0 \<and> cb_state cb' = CLOSED \<and> env p' = env p1)
    \<and> (cb_state cb = OPEN \<longrightarrow> rt_now rt (env p) - lastFailureTime cb > timeout cb \<longrightarrow>
          operation p = (Inl e, p1) \<longrightarrow>
          r = Inl e \<and> cb_state cb' = OPEN \<and> lastFailureTime cb' = rt_now rt (env p1) \<and> env p' = env p1)
    \<and> (0 < th \<longrightarrow> breaker_settled (new_CircuitBreaker th t))"
proof -
  have settled: "breaker_settled cb'"
    using assms unfolding execute_cases
    by (auto simp: breaker_settled_def cb_recordFailure_def Let_def
             split: if_splits prod.splits sum.splits)
  have closed_fail: "cb_state cb = CLOSED \<longrightarrow> operation p = (Inl e, p1) \<longrightarrow>
          r = Inl e \<and> failureCount cb' = failureCount cb + 1
          \<and> lastFailureTime cb' = rt_now rt (env p1)
          \<and> (cb_state cb' = OPEN) = (failureCount cb + 1 = threshold cb)
          \<and> (cb_state cb' = CLOSED) = (failureCount cb + 1 < threshold cb)"
    using assms unfolding execute_cases
    by (auto simp: breaker_settled_def cb_recordFailure_def Let_def split: if_splits)
  have closed_ok: "cb_state cb = CLOSED \<longrightarrow> operation p = (Inr v, p1) \<longrightarrow> r = Inr v \<and> cb' = cb \<and> p' = p1"
    using assms(2) unfolding execute_cases by auto
  have open_fast: "cb_state cb = OPEN \<longrightarrow> rt_now rt (env p) - lastFailureTime cb \<le> timeout cb \<longrightarrow>
          r = Inl breaker_open_error \<and> cb' = cb \<and> p' = p"
    using assms(2) unfolding execute_cases by auto
  have trial_ok: "cb_state cb = OPEN \<longrightarrow> rt_now rt (env p) - lastFailureTime cb > timeout cb \<longrightarrow>
          operation p = (Inr v, p1) \<longrightarrow>
          r = Inr v \<and> failureCount cb' = 0 \<and> cb_state cb' = CLOSED \<and> env p' = env p1"
    using assms(2) unfolding execute_cases by (auto simp: emit_def)
  have trial_fail: "cb_state cb = OPEN \<longrightarrow> rt_now rt (env p) - lastFailureTime cb > timeout cb \<longrightarrow>
          operation p = (Inl e, p1) \<longrightarrow>
          r = Inl e \<and> cb_state cb' = OPEN \<and> lastFailureTime cb' = rt_now rt (env p1) \<and> env p' = env p1"
    using assms unfolding execute_cases
    by (auto simp: breaker_settled_def cb_recordFailure_def Let_def emit_def split: if_splits)
  have fresh: "0 < th \<longrightarrow> breaker_settled (new_CircuitBreaker th t)"
    by (simp add: breaker_settled_def new_CircuitBreaker_def)
  from settled closed_fail closed_ok open_fast trial_ok trial_fail fresh show ?thesis
    by blast
qed

text \<open>
  C6 as stated fails: with threshold 3 the outcomes failure, failure, success, failure
  never hold three failures in a row, yet the breaker is Open after the fourth call,
  since a success while Closed does not reset the count.
\<close>

theorem breaker_counterexample:
  "fst (execute_all clock_runtime (new_CircuitBreaker 3 1000)
          [failing, failing, succeeding, failing] (at_time 0))
     = [Inl (new_Error ''Failed''), Inl (new_Error ''Failed''), Inr ''Success'', Inl (new_Error ''Failed'')]
   \<and> consecutive_failures [Inl (new_Error ''Failed'') :: jsval + string] = 1
   \<and> consecutive_failures [Inl (new_Error ''Failed''), Inl (new_Error ''Failed'') :: jsval + string] = 2
   \<and> consecutive_failures [Inl (new_Error ''Failed''), Inl (new_Error ''Failed''), Inr ''Success''] = 0
   \<and> consecutive_failures
        [Inl (new_Error ''Failed''), Inl (new_Error ''Failed''), Inr ''Success'', Inl (new_Error ''Failed'')] = 1
   \<and> cb_state (fst (snd (execute_all clock_runtime (new_CircuitBreaker 3 1000)
          [failing, failing, succeeding, failing] (at_time 0)))) = OPEN"
  by code_simp
theorem breaker_transitions_witness:
  "breaker_settled breaker_closed2 \<and> breaker_settled breaker_open3
   \<and> cb_state (fst (snd (execute clock_runtime breaker_closed2 failing (at_time 10)))) = OPEN
   \<and> failureCount (fst (snd (execute clock_runtime breaker_closed2 failing (at_time 10)))) = 3
   \<and> fst (snd (execute clock_runtime breaker_closed2 succeeding (at_time 10))) = breaker_closed2
   \<and> execute clock_runtime breaker_open3 succeeding (at_time 1010)
       = (Inl breaker_open_error, breaker_open3, at_time 1010)
   \<and> cb_state (fst (snd (execute clock_runtime breaker_open3 succeeding (at_time 1011)))) = CLOSED
   \<and> failureCount (fst (snd (execute clock_runtime breaker_open3 succeeding (at_time 1011)))) = 0
   \<and> cb_state (fst (snd (execute clock_runtime breaker_open3 failing (at_time 1011)))) = OPEN
   \<and> lastFailureTime (fst (snd (execute clock_runtime breaker_open3 failing (at_time 1011)))) = 1012"
proof -
  have s1: "breaker_settled breaker_closed2" by code_simp
  have s2: "breaker_settled breaker_open3" by code_simp
  have c1: "cb_state breaker_closed2 = CLOSED" by code_simp
  have c2: "cb_state breaker_open3 = OPEN" by code_simp
  have f10: "failing (at_time 10) = (Inl (new_Error ''Failed''), at_time 11)"
    by (simp add: failing_def at_time_def)
  have g10: "succeeding (at_time 10) = (Inr ''Success'', at_time 11)"
    by (simp add: succeeding_def at_time_def)
  have f1011: "failing (at_time 1011) = (Inl (new_Error ''Failed''), at_time 1012)"
    by (simp add: failing_def at_time_def)
  have g1011: "succeeding (at_time 1011) = (Inr ''Success'', at_time 1012)"
    by (simp add: succeeding_def at_time_def)
  have early: "rt_now clock_runtime (env (at_time 1010)) - lastFailureTime breaker_open3 \<le> timeout breaker_open3"
    by (simp add: clock_runtime_def at_time_def breaker_open3_def)
  have late: "rt_now clock_runtime (env (at_time 1011)) - lastFailureTime breaker_open3 > timeout breaker_open3"
    by (simp add: clock_runtime_def at_time_def breaker_open3_def)
  have n11: "failureCount breaker_closed2 + 1 = threshold breaker_closed2" "failureCount breaker_closed2 + 1 = 3"
    by (simp_all add: breaker_closed2_def)
  have t12: "rt_now clock_runtime (env (at_time 1012)) = 1012"
    by (simp add: clock_runtime_def at_time_def)
  note A = breaker_transitions [OF s1 triple, of clock_runtime failing "at_time 10"
             "new_Error ''Failed''" "at_time 11"]
  note B = breaker_transitions [OF s1 triple, of clock_runtime succeeding "at_time 10"
             _ "at_time 11" "''Success''"]
  note C = breaker_transitions [OF s2 triple, of clock_runtime succeeding "at_time 1010"]
  note D = breaker_transitions [OF s2 triple, of clock_runtime succeeding "at_time 1011"
             _ "at_time 1012" "''Success''"]
  note E = breaker_transitions [OF s2 triple, of clock_runtime failing "at_time 1011"
             "new_Error ''Failed''" "at_time 1012"]
  have a: "cb_state (fst (snd (execute clock_runtime breaker_closed2 failing (at_time 10)))) = OPEN"
          "failureCount (fst (snd (execute clock_runtime breaker_closed2 failing (at_time 10)))) = 3"
    using A c1 f10 n11 by auto
  have b: "fst (snd (execute clock_runtime breaker_closed2 succeeding (at_time 10))) = breaker_closed2"
    using B c1 g10 by blast
  have c: "execute clock_runtime breaker_open3 succeeding (at_time 1010)
       = (Inl breaker_open_error, breaker_open3, at_time 1010)"
    using C c2 early by (metis prod.collapse)
  have d: "cb_state (fst (snd (execute clock_runtime breaker_open3 succeeding (at_time 1011)))) = CLOSED"
          "failureCount (fst (snd (execute clock_runtime breaker_open3 succeeding (at_time 1011)))) = 0"
    using D c2 late g1011 by blast+
  have e: "cb_state (fst (snd (execute clock_runtime breaker_open3 failing (at_time 1011)))) = OPEN"
          "lastFailureTime (fst (snd (execute clock_runtime breaker_open3 failing (at_time 1011)))) = 1012"
    using E c2 late f1011 t12 by auto
  from s1 s2 a b c d e show ?thesis by blast
qed
section \<open>Properties of the name conversions\<close>






























section \<open>Properties of change detection\<close>

subsection \<open>Maps\<close>

lemma map_set_keys: "fst ` set (map_set k v m) = insert k (fst ` set m)"
  by (induction m) auto

lemma map_set_distinct: "distinct (map fst m) \<Longrightarrow> distinct (map fst (map_set k v m))"
proof (induction m)
  case Nil
  show ?case by simp
next
  case (Cons entry m)
  have "fst entry \<notin> fst ` set (map_set k v m)" if "fst entry \<noteq> k"
    using that Cons.prems by (simp add: map_set_keys)
  with Cons show ?case by auto
qed

lemma foldl_map_set_keys:
  "fst ` set (foldl (\<lambda>m x. map_set (key x) x m) m0 xs) = fst ` set m0 \<union> key ` set xs"
proof (induction xs arbitrary: m0)
  case Nil
  show ?case by simp
next
  case (Cons x xs)
  show ?case
    unfolding foldl_Cons Cons.IH map_set_keys by auto
qed

lemma foldl_map_set_distinct:
  "distinct (map fst m0) \<Longrightarrow> distinct (map fst (foldl (\<lambda>m x. map_set (key x) x m) m0 xs))"
  by (induction xs arbitrary: m0) (simp_all add: map_set_distinct)

lemma repoFileMap_keys:
  "fst ` set (build_repoFileMap repoFiles)
     = (\<lambda>f. convertPathToWikiName (relative_or_path f)) ` set repoFiles"
  unfolding build_repoFileMap_def
  using foldl_map_set_keys [of "\<lambda>f. convertPathToWikiName (relative_or_path f)" "[]" repoFiles]
  by simp

lemma wikiFileMap_keys: "fst ` set (build_wikiFileMap wikiFiles) = wp_name ` set wikiFiles"
  unfolding build_wikiFileMap_def
  using foldl_map_set_keys [of wp_name "[]" wikiFiles] by simp

lemma repoFileMap_distinct: "distinct (map fst (build_repoFileMap repoFiles))"
  unfolding build_repoFileMap_def
  using foldl_map_set_distinct [of "[]" "\<lambda>f. convertPathToWikiName (relative_or_path f)" repoFiles]
  by simp

lemma wikiFileMap_distinct: "distinct (map fst (build_wikiFileMap wikiFiles))"
  unfolding build_wikiFileMap_def
  using foldl_map_set_distinct [of "[]" wp_name wikiFiles] by simp

lemma map_of_None_iff: "(map_of m k = None) = (k \<notin> fst ` set m)"
  by (simp add: map_of_eq_None_iff)

subsection \<open>The three loops\<close>

lemma repo_to_wiki_phase:
  "list_all (\<lambda>c. is_repo_create c \<or> is_repo_update c) (repo_to_wiki_changes W R)"
  by (induction W R rule: repo_to_wiki_changes.induct)
     (auto simp: is_repo_create_def is_repo_update_def split: option.splits)

lemma wiki_to_repo_phase: "list_all is_wiki_create (wiki_to_repo_changes rt config e R W)"
  by (induction rt config e R W rule: wiki_to_repo_changes.induct)
     (auto simp: is_wiki_create_def Let_def)

lemma delete_phase: "list_all is_repo_delete (delete_changes R W)"
  by (induction R W rule: delete_changes.induct) (auto simp: is_repo_delete_def)

lemma repo_to_wiki_order: "subseq (map c_wikiName (repo_to_wiki_changes W R)) (map fst R)"
  by (induction W R rule: repo_to_wiki_changes.induct) (auto split: option.splits)

lemma wiki_to_repo_order: "subseq (map c_wikiName (wiki_to_repo_changes rt config e R W)) (map fst W)"
  by (induction rt config e R W rule: wiki_to_repo_changes.induct) (auto simp: Let_def)

lemma delete_order: "subseq (map c_wikiName (delete_changes R W)) (map fst W)"
  by (induction R W rule: delete_changes.induct) auto

lemma sorted_constant: "list_all (\<lambda>c. f c = (n::nat)) p \<Longrightarrow> sorted (map f p)"
  by (induction p) (auto simp: list_all_iff)

lemma sorted_three_phases:
  assumes "list_all (\<lambda>c. f c = (0::nat)) p0" "list_all (\<lambda>c. f c = 1) p1" "list_all (\<lambda>c. f c = 2) p2"
  shows "sorted (map f (p0 @ p1 @ p2))"
  using assms sorted_constant [OF assms(1)] sorted_constant [OF assms(2)] sorted_constant [OF assms(3)]
  by (auto simp: sorted_append list_all_iff)

lemma recordFailure_successes:
  "successfulOperations (snd (recordFailure h operation error)) = successfulOperations h"
  by (simp add: recordFailure_def Let_def)

lemma try_apply_successes:
  "try_apply rt github fh config h change fr = (Inr h1, fr1) \<Longrightarrow>
   successfulOperations h1 = successfulOperations h @ [counted_operation change]"
  by (auto simp: try_apply_def recordSuccess_def split: prod.splits sum.splits)

lemma apply_failed_successes:
  "apply_failed rt h change error fr = (Inr h1, fr1) \<Longrightarrow>
   successfulOperations h1 = successfulOperations h"
  using recordFailure_successes [of h "counted_operation change" error]
  by (auto simp: apply_failed_def Let_def split: prod.splits sum.splits if_splits)

lemma apply_changes_order:
  "apply_changes rt github fh config h changes fr = (Inr h', fr') \<Longrightarrow>
   \<exists>applied. successfulOperations h' = successfulOperations h @ applied
             \<and> subseq applied (map counted_operation changes)"
proof (induction changes arbitrary: h fr)
  case Nil
  then show ?case by simp
next
  case (Cons change rest)
  obtain r fr1 where t: "try_apply rt github fh config h change fr = (r, fr1)"
    by (cases "try_apply rt github fh config h change fr")
  show ?case
  proof (cases r)
    case (Inr h1)
    with t Cons.prems have "apply_changes rt github fh config h1 rest fr1 = (Inr h', fr')"
      by simp
    from Cons.IH [OF this] obtain applied where
      a: "successfulOperations h' = successfulOperations h1 @ applied"
         "subseq applied (map counted_operation rest)"
      by blast
    from t Inr have "successfulOperations h1 = successfulOperations h @ [counted_operation change]"
      by (simp add: try_apply_successes)
    with a have "successfulOperations h' = successfulOperations h @ (counted_operation change # applied)"
        "subseq (counted_operation change # applied) (map counted_operation (change # rest))"
      by simp_all
    then show ?thesis by blast
  next
    case (Inl error)
    obtain r2 fr2 where f: "apply_failed rt h change error fr1 = (r2, fr2)"
      by (cases "apply_failed rt h change error fr1")
    from Cons.prems t Inl f obtain h1 where
      r2: "r2 = Inr h1" and rest: "apply_changes rt github fh config h1 rest fr2 = (Inr h', fr')"
      by (cases r2) auto
    have s1: "successfulOperations h1 = successfulOperations h"
      using apply_failed_successes [of rt h change error fr1 h1 fr2] f r2 by simp
    from Cons.IH [OF rest] obtain applied where
      a: "successfulOperations h' = successfulOperations h1 @ applied"
         "subseq applied (map counted_operation rest)"
      by blast
    with s1 have "successfulOperations h' = successfulOperations h @ applied"
        "subseq applied (map counted_operation (change # rest))"
      by (simp_all add: list_emb_Cons)
    then show ?thesis by blast
  qed
qed

text \<open>
  C3 (as amended).  The list \<open>detectChanges\<close> returns falls into three consecutive parts:
  first the repository-to-wiki creates and updates, mixed, in the iteration order of the
  repository map; then the wiki-to-repository creates; then the repository-to-wiki
  deletes, the last two in the iteration order of the wiki map.  No change of a later
  part precedes a change of an earlier one.  The apply loop of \<open>sync\<close> takes the list
  in this order: the operations it has applied when it completes are, in order, among
  the changes of the list.
\<close>

theorem detect_phases:
  "(\<exists>p0 p1 p2.
      detect rt config e repoFiles wikiFiles = p0 @ p1 @ p2
      \<and> list_all (\<lambda>c. is_repo_create c \<or> is_repo_update c) p0
      \<and> list_all is_wiki_create p1
      \<and> list_all is_repo_delete p2
      \<and> subseq (map c_wikiName p0) (map fst (build_repoFileMap repoFiles))
      \<and> subseq (map c_wikiName p1) (map fst (build_wikiFileMap wikiFiles))
      \<and> subseq (map c_wikiName p2) (map fst (build_wikiFileMap wikiFiles))
      \<and> sorted (map loop_phase (detect rt config e repoFiles wikiFiles)))
   \<and> (\<forall>github fh h h' fr fr'.
        apply_changes rt github fh config h (detect rt config e repoFiles wikiFiles) fr = (Inr h', fr') \<longrightarrow>
        (\<exists>applied. successfulOperations h' = successfulOperations h @ applied
           \<and> subseq applied (map counted_operation (detect rt config e repoFiles wikiFiles))))"
proof -
  let ?R = "build_repoFileMap repoFiles" and ?W = "build_wikiFileMap wikiFiles"
  let ?p0 = "repo_to_wiki_changes ?W ?R"
  let ?p1 = "wiki_to_repo_changes rt config e ?R ?W"
  let ?p2 = "if syncDeletes config \<noteq> Some False then delete_changes ?R ?W else []"
  have d: "detect rt config e repoFiles wikiFiles = ?p0 @ ?p1 @ ?p2"
    by (simp add: detect_def Let_def)
  have a0: "list_all (\<lambda>c. is_repo_create c \<or> is_repo_update c) ?p0" by (rule repo_to_wiki_phase)
  have a1: "list_all is_wiki_create ?p1" by (rule wiki_to_repo_phase)
  have a2: "list_all is_repo_delete ?p2" using delete_phase [of ?R ?W] by simp
  have o0: "subseq (map c_wikiName ?p0) (map fst ?R)" by (rule repo_to_wiki_order)
  have o1: "subseq (map c_wikiName ?p1) (map fst ?W)" by (rule wiki_to_repo_order)
  have o2: "subseq (map c_wikiName ?p2) (map fst ?W)" using delete_order [of ?R ?W] by simp
  have l0: "list_all (\<lambda>c. loop_phase c = 0) ?p0"
    using a0 by (auto simp: list_all_iff loop_phase_def)
  have l1: "list_all (\<lambda>c. loop_phase c = 1) ?p1"
    using a1 by (auto simp: list_all_iff loop_phase_def is_wiki_create_def is_repo_create_def is_repo_update_def)
  have l2: "list_all (\<lambda>c. loop_phase c = 2) ?p2"
    using a2 by (auto simp: list_all_iff loop_phase_def is_wiki_create_def is_repo_create_def
        is_repo_update_def is_repo_delete_def)
  have s: "sorted (map loop_phase (detect rt config e repoFiles wikiFiles))"
    unfolding d using l0 l1 l2 by (rule sorted_three_phases)
  from d a0 a1 a2 o0 o1 o2 s have parts:
    "\<exists>p0 p1 p2.
      detect rt config e repoFiles wikiFiles = p0 @ p1 @ p2
      \<and> list_all (\<lambda>c. is_repo_create c \<or> is_repo_update c) p0
      \<and> list_all is_wiki_create p1
      \<and> list_all is_repo_delete p2
      \<and> subseq (map c_wikiName p0) (map fst (build_repoFileMap repoFiles))
      \<and> subseq (map c_wikiName p1) (map fst (build_wikiFileMap wikiFiles))
      \<and> subseq (map c_wikiName p2) (map fst (build_wikiFileMap wikiFiles))
      \<and> sorted (map loop_phase (detect rt config e repoFiles wikiFiles))"
    by blast
  have loop: "\<forall>github fh h h' fr fr'.
        apply_changes rt github fh config h (detect rt config e repoFiles wikiFiles) fr = (Inr h', fr') \<longrightarrow>
        (\<exists>applied. successfulOperations h' = successfulOperations h @ applied
           \<and> subseq applied (map counted_operation (detect rt config e repoFiles wikiFiles)))"
    using apply_changes_order by blast
  from parts loop show ?thesis by (rule conjI)
qed

text \<open>
  C3 as stated fails: with \<open>a.md\<close> on both sides with different contents and \<open>b.md\<close> only
  in the repository, the update of \<open>a\<close> precedes the create of \<open>b\<close>.
\<close>

theorem detect_phases_counterexample:
  "map c_type (detect disk_runtime docs_config []
        [repo_file ''a.md'' ''A'', repo_file ''b.md'' ''B''] [wiki_page ''a'' ''old'']) = [Update, Create]
   \<and> map c_direction (detect disk_runtime docs_config []
        [repo_file ''a.md'' ''A'', repo_file ''b.md'' ''B''] [wiki_page ''a'' ''old''])
       = [Some RepoToWiki, Some RepoToWiki]
   \<and> map spec_phase (detect disk_runtime docs_config []
        [repo_file ''a.md'' ''A'', repo_file ''b.md'' ''B''] [wiki_page ''a'' ''old'']) = [1, 0]
   \<and> \<not> sorted (map spec_phase (detect disk_runtime docs_config []
        [repo_file ''a.md'' ''A'', repo_file ''b.md'' ''B''] [wiki_page ''a'' ''old'']))"
  by code_simp

subsection \<open>What each loop emits\<close>

lemma repo_to_wiki_disjoint:
  "fst ` set R \<inter> fst ` set W = {} \<Longrightarrow>
   list_all is_repo_create (repo_to_wiki_changes W R)
   \<and> map c_wikiName (repo_to_wiki_changes W R) = map fst R"
proof (induction W R rule: repo_to_wiki_changes.induct)
  case (1 W)
  show ?case by simp
next
  case (2 W wikiName repoFile rest)
  from 2(2) have "map_of W wikiName = None"
    by (auto simp: map_of_None_iff)
  moreover from 2(2) have "fst ` set rest \<inter> fst ` set W = {}" by auto
  ultimately show ?case using 2(1) by (simp add: is_repo_create_def)
qed

lemma wiki_to_repo_names:
  "map c_wikiName (wiki_to_repo_changes rt config e R W)
     = filter (\<lambda>n. n \<notin> fst ` set R \<and> \<not> rt_access rt (mapped_full_path rt config n) e) (map fst W)"
  by (induction rt config e R W rule: wiki_to_repo_changes.induct)
     (auto simp: Let_def map_of_None_iff mapped_full_path_def)

lemma delete_names:
  "map c_wikiName (delete_changes R W) = filter (\<lambda>n. n \<notin> fst ` set R) (map fst W)"
  by (induction R W rule: delete_changes.induct)
     (auto simp: map_has_def map_of_None_iff)

lemma filter_all: "list_all Q p \<Longrightarrow> (\<And>c. Q c \<Longrightarrow> P c) \<Longrightarrow> filter P p = p"
  by (induction p) auto

lemma filter_none: "list_all Q p \<Longrightarrow> (\<And>c. Q c \<Longrightarrow> \<not> P c) \<Longrightarrow> filter P p = []"
  by (induction p) auto

lemma phases_exclusive:
  "is_repo_create c \<Longrightarrow> \<not> is_wiki_create c" "is_repo_create c \<Longrightarrow> \<not> is_repo_delete c"
  "is_wiki_create c \<Longrightarrow> \<not> is_repo_create c" "is_wiki_create c \<Longrightarrow> \<not> is_repo_delete c"
  "is_repo_delete c \<Longrightarrow> \<not> is_repo_create c" "is_repo_delete c \<Longrightarrow> \<not> is_wiki_create c"
  by (auto simp: is_repo_create_def is_wiki_create_def is_repo_delete_def)

lemma length_keys_card: "distinct (map fst m) \<Longrightarrow> length (map fst m) = card (set (map fst m))"
  by (rule distinct_card [symmetric])

lemma length_filter_card: "distinct xs \<Longrightarrow> length (filter P xs) = card {x \<in> set xs. P x}"
  using distinct_card [of "filter P xs"] by simp

text \<open>
  C4 (as amended).  When no logical name is on both sides and delete-sync is not switched
  off, \<open>detectChanges\<close> returns one repository-to-wiki create per name \<open>A\<close> of the
  repository side, one wiki-to-repository create per name of the wiki side \<open>B\<close> whose
  mapped path \<open>fs.access\<close> does not find, and one repository-to-wiki delete per name of
  \<open>B\<close>.  When no mapped path is found on disk that is \<open>|A| + 2|B|\<close> changes, and every
  name of \<open>B\<close> has both its create and its delete.
\<close>

theorem detect_counts:
  assumes "(\<lambda>f. convertPathToWikiName (relative_or_path f)) ` set repoFiles \<inter> wp_name ` set wikiFiles = {}"
    and "syncDeletes config \<noteq> Some False"
  shows
    "length (filter is_repo_create (detect rt config e repoFiles wikiFiles))
       = card ((\<lambda>f. convertPathToWikiName (relative_or_path f)) ` set repoFiles)
     \<and> length (filter is_wiki_create (detect rt config e repoFiles wikiFiles))
       = card {b \<in> wp_name ` set wikiFiles. \<not> rt_access rt (mapped_full_path rt config b) e}
     \<and> length (filter is_repo_delete (detect rt config e repoFiles wikiFiles))
       = card (wp_name ` set wikiFiles)
     \<and> length (detect rt config e repoFiles wikiFiles)
       = card ((\<lambda>f. convertPathToWikiName (relative_or_path f)) ` set repoFiles)
         + card {b \<in> wp_name ` set wikiFiles. \<not> rt_access rt (mapped_full_path rt config b) e}
         + card (wp_name ` set wikiFiles)
     \<and> ((\<forall>b \<in> wp_name ` set wikiFiles. \<not> rt_access rt (mapped_full_path rt config b) e) \<longrightarrow>
          length (detect rt config e repoFiles wikiFiles)
            = card ((\<lambda>f. convertPathToWikiName (relative_or_path f)) ` set repoFiles)
              + 2 * card (wp_name ` set wikiFiles)
          \<and> (\<forall>b \<in> wp_name ` set wikiFiles.
                b \<in> c_wikiName ` {c \<in> set (detect rt config e repoFiles wikiFiles). is_wiki_create c}
              \<and> b \<in> c_wikiName ` {c \<in> set (detect rt config e repoFiles wikiFiles). is_repo_delete c}))"
proof -
  define R where "R = build_repoFileMap repoFiles"
  define W where "W = build_wikiFileMap wikiFiles"
  define A where "A = (\<lambda>f. convertPathToWikiName (relative_or_path f)) ` set repoFiles"
  define B where "B = wp_name ` set wikiFiles"
  define absent where "absent = (\<lambda>n. \<not> rt_access rt (mapped_full_path rt config n) e)"
  define p0 where "p0 = repo_to_wiki_changes W R"
  define p1 where "p1 = wiki_to_repo_changes rt config e R W"
  define p2 where "p2 = delete_changes R W"
  have kR: "fst ` set R = A" unfolding R_def A_def by (rule repoFileMap_keys)
  have kW: "fst ` set W = B" unfolding W_def B_def by (rule wikiFileMap_keys)
  have dR: "distinct (map fst R)" unfolding R_def by (rule repoFileMap_distinct)
  have dW: "distinct (map fst W)" unfolding W_def by (rule wikiFileMap_distinct)
  have disj: "fst ` set R \<inter> fst ` set W = {}" using assms(1) kR kW A_def B_def by simp
  have d: "detect rt config e repoFiles wikiFiles = p0 @ p1 @ p2"
    using assms(2) by (simp add: detect_def Let_def R_def W_def p0_def p1_def p2_def)
  have a0: "list_all is_repo_create p0" and n0: "map c_wikiName p0 = map fst R"
    using repo_to_wiki_disjoint [OF disj] by (simp_all add: p0_def)
  have a1: "list_all is_wiki_create p1" unfolding p1_def by (rule wiki_to_repo_phase)
  have a2: "list_all is_repo_delete p2" unfolding p2_def by (rule delete_phase)
  have notR: "\<And>n. n \<in> set (map fst W) \<Longrightarrow> n \<notin> fst ` set R" using disj by auto
  have n1: "map c_wikiName p1 = filter absent (map fst W)"
    unfolding p1_def wiki_to_repo_names absent_def using notR by (intro filter_cong) auto
  have n2: "map c_wikiName p2 = map fst W"
    unfolding p2_def delete_names using notR by (simp add: filter_id_conv)
  have "length p0 = length (map c_wikiName p0)" by simp
  also have "\<dots> = card (set (map fst R))" unfolding n0 using dR by (rule length_keys_card)
  also have "\<dots> = card A" using kR by simp
  finally have l0: "length p0 = card A" .
  have "length p1 = length (map c_wikiName p1)" by simp
  also have "\<dots> = card {b \<in> set (map fst W). absent b}" unfolding n1 using dW by (rule length_filter_card)
  also have "\<dots> = card {b \<in> B. absent b}" using kW by simp
  finally have l1: "length p1 = card {b \<in> B. absent b}" .
  have "length p2 = length (map c_wikiName p2)" by simp
  also have "\<dots> = card (set (map fst W))" unfolding n2 using dW by (rule length_keys_card)
  also have "\<dots> = card B" using kW by simp
  finally have l2: "length p2 = card B" .
  have f0: "filter is_repo_create (p0 @ p1 @ p2) = p0"
  proof -
    have "filter is_repo_create p0 = p0" using a0 by (rule filter_all)
    moreover have "filter is_repo_create p1 = []" using a1 by (rule filter_none) (rule phases_exclusive)
    moreover have "filter is_repo_create p2 = []" using a2 by (rule filter_none) (rule phases_exclusive)
    ultimately show ?thesis by simp
  qed
  have f1: "filter is_wiki_create (p0 @ p1 @ p2) = p1"
  proof -
    have "filter is_wiki_create p0 = []" using a0 by (rule filter_none) (rule phases_exclusive)
    moreover have "filter is_wiki_create p1 = p1" using a1 by (rule filter_all)
    moreover have "filter is_wiki_create p2 = []" using a2 by (rule filter_none) (rule phases_exclusive)
    ultimately show ?thesis by simp
  qed
  have f2: "filter is_repo_delete (p0 @ p1 @ p2) = p2"
  proof -
    have "filter is_repo_delete p0 = []" using a0 by (rule filter_none) (rule phases_exclusive)
    moreover have "filter is_repo_delete p1 = []" using a1 by (rule filter_none) (rule phases_exclusive)
    moreover have "filter is_repo_delete p2 = p2" using a2 by (rule filter_all)
    ultimately show ?thesis by simp
  qed
  have c1: "length (filter is_repo_create (detect rt config e repoFiles wikiFiles)) = card A"
    unfolding d f0 by (rule l0)
  have c2: "length (filter is_wiki_create (detect rt config e repoFiles wikiFiles)) = card {b \<in> B. absent b}"
    unfolding d f1 by (rule l1)
  have c3: "length (filter is_repo_delete (detect rt config e repoFiles wikiFiles)) = card B"
    unfolding d f2 by (rule l2)
  have c4: "length (detect rt config e repoFiles wikiFiles) = card A + card {b \<in> B. absent b} + card B"
    unfolding d using l0 l1 l2 by simp
  have c5: "length (detect rt config e repoFiles wikiFiles) = card A + 2 * card B
          \<and> (\<forall>b \<in> B.
                b \<in> c_wikiName ` {c \<in> set (detect rt config e repoFiles wikiFiles). is_wiki_create c}
              \<and> b \<in> c_wikiName ` {c \<in> set (detect rt config e repoFiles wikiFiles). is_repo_delete c})"
    if all: "\<forall>b \<in> B. absent b"
  proof -
    from all have "{b \<in> B. absent b} = B" by auto
    with c4 have len: "length (detect rt config e repoFiles wikiFiles) = card A + 2 * card B" by simp
    have s1: "c_wikiName ` {c \<in> set (detect rt config e repoFiles wikiFiles). is_wiki_create c} = B"
    proof -
      have "{c \<in> set (detect rt config e repoFiles wikiFiles). is_wiki_create c}
              = set (filter is_wiki_create (p0 @ p1 @ p2))"
        unfolding d by auto
      also have "\<dots> = set p1" unfolding f1 ..
      finally have "c_wikiName ` {c \<in> set (detect rt config e repoFiles wikiFiles). is_wiki_create c}
              = set (map c_wikiName p1)" by simp
      also have "\<dots> = B" unfolding n1 using all kW by auto
      finally show ?thesis .
    qed
    have s2: "c_wikiName ` {c \<in> set (detect rt config e repoFiles wikiFiles). is_repo_delete c} = B"
    proof -
      have "{c \<in> set (detect rt config e repoFiles wikiFiles). is_repo_delete c}
              = set (filter is_repo_delete (p0 @ p1 @ p2))"
        unfolding d by auto
      also have "\<dots> = set p2" unfolding f2 ..
      finally have "c_wikiName ` {c \<in> set (detect rt config e repoFiles wikiFiles). is_repo_delete c}
              = set (map c_wikiName p2)" by simp
      also have "\<dots> = B" unfolding n2 using kW by simp
      finally show ?thesis .
    qed
    from len s1 s2 show ?thesis by simp
  qed
  from c1 c2 c3 c4 c5 have
    "length (filter is_repo_create (detect rt config e repoFiles wikiFiles)) = card A
     \<and> length (filter is_wiki_create (detect rt config e repoFiles wikiFiles)) = card {b \<in> B. absent b}
     \<and> length (filter is_repo_delete (detect rt config e repoFiles wikiFiles)) = card B
     \<and> length (detect rt config e repoFiles wikiFiles) = card A + card {b \<in> B. absent b} + card B
     \<and> ((\<forall>b \<in> B. absent b) \<longrightarrow>
          length (detect rt config e repoFiles wikiFiles) = card A + 2 * card B
          \<and> (\<forall>b \<in> B.
                b \<in> c_wikiName ` {c \<in> set (detect rt config e repoFiles wikiFiles). is_wiki_create c}
              \<and> b \<in> c_wikiName ` {c \<in> set (detect rt config e repoFiles wikiFiles). is_repo_delete c}))"
    by (intro conjI impI) simp_all
  then show ?thesis
    unfolding A_def B_def absent_def .
qed

theorem detect_counts_witness:
  "(\<lambda>f. convertPathToWikiName (relative_or_path f)) ` set [repo_file ''a.md'' ''A'']
      \<inter> wp_name ` set [wiki_page ''wiki-only'' ''W''] = {}
   \<and> syncDeletes docs_config \<noteq> Some False
   \<and> \<not> rt_access disk_runtime (mapped_full_path disk_runtime docs_config ''wiki-only'') []
   \<and> length (detect disk_runtime docs_config [] [repo_file ''a.md'' ''A''] [wiki_page ''wiki-only'' ''W''])
       = card ((\<lambda>f. convertPathToWikiName (relative_or_path f)) ` set [repo_file ''a.md'' ''A''])
         + 2 * card (wp_name ` set [wiki_page ''wiki-only'' ''W''])
   \<and> map c_type (detect disk_runtime docs_config [] [repo_file ''a.md'' ''A''] [wiki_page ''wiki-only'' ''W''])
       = [Create, Create, Delete]"
proof -
  have h1: "(\<lambda>f. convertPathToWikiName (relative_or_path f)) ` set [repo_file ''a.md'' ''A'']
      \<inter> wp_name ` set [wiki_page ''wiki-only'' ''W''] = {}"
    by code_simp
  have h2: "syncDeletes docs_config \<noteq> Some False"
    by (simp add: docs_config_def)
  have h3: "\<forall>b \<in> wp_name ` set [wiki_page ''wiki-only'' ''W''].
         \<not> rt_access disk_runtime (mapped_full_path disk_runtime docs_config b) []"
    by (simp add: disk_runtime_def)
  have v: "map c_type (detect disk_runtime docs_config [] [repo_file ''a.md'' ''A''] [wiki_page ''wiki-only'' ''W''])
       = [Create, Create, Delete]"
    by code_simp
  have h4: "\<not> rt_access disk_runtime (mapped_full_path disk_runtime docs_config ''wiki-only'') []"
    by (simp add: disk_runtime_def)
  from detect_counts [OF h1 h2, of disk_runtime "[]"] h1 h2 h3 h4 v show ?thesis
    by blast
qed

text \<open>
  C4 as stated fails: the page \<open>.github-notes\<close> is only on the wiki side, its mapped path
  \<open>docs/.github/notes.md\<close> is on disk (in a hidden directory, which the reader of the
  repository side skips), and with \<open>a.md\<close> only in the repository two changes are
  returned, not \<open>1 + 2 * 1\<close>.
\<close>

theorem detect_counts_counterexample:
  "convertPathToWikiName (relative_or_path (repo_file ''a.md'' ''A'')) = ''a''
   \<and> wp_name (wiki_page ''.github-notes'' ''N'') = ''.github-notes''
   \<and> syncDeletes docs_config = Some True
   \<and> map c_type (detect disk_runtime docs_config [''/work/docs/a.md'', ''/work/docs/.github/notes.md'']
         [repo_file ''a.md'' ''A''] [wiki_page ''.github-notes'' ''N'']) = [Create, Delete]
   \<and> map c_wikiName (detect disk_runtime docs_config [''/work/docs/a.md'', ''/work/docs/.github/notes.md'']
         [repo_file ''a.md'' ''A''] [wiki_page ''.github-notes'' ''N'']) = [''a'', ''.github-notes'']
   \<and> length (detect disk_runtime docs_config [''/work/docs/a.md'', ''/work/docs/.github/notes.md'']
         [repo_file ''a.md'' ''A''] [wiki_page ''.github-notes'' ''N'']) \<noteq> 1 + 2 * 1"
  by code_simp

text \<open>
  C10.  \<open>convertPathToWikiName\<close> is not injective: \<open>docs/a-b.md\<close> and \<open>docs/a/b.md\<close> have
  the same wiki name.  And \<open>detectChanges\<close> returns a wiki-to-repository create for a
  name exactly when the name is on the wiki side, not on the repository side, and the
  existence check of its mapped path fails.
\<close>

theorem wiki_create_guard:
  "convertPathToWikiName ''docs/a-b.md'' = convertPathToWikiName ''docs/a/b.md''
   \<and> ''docs/a-b.md'' \<noteq> ''docs/a/b.md''
   \<and> \<not> inj convertPathToWikiName
   \<and> (\<forall>n. (n \<in> c_wikiName ` {c \<in> set (detect rt config e repoFiles wikiFiles). is_wiki_create c})
          = (n \<in> wp_name ` set wikiFiles
             \<and> n \<notin> (\<lambda>f. convertPathToWikiName (relative_or_path f)) ` set repoFiles
             \<and> \<not> rt_access rt (mapped_full_path rt config n) e))"
proof -
  have same: "convertPathToWikiName ''docs/a-b.md'' = convertPathToWikiName ''docs/a/b.md''"
    by code_simp
  have diff: "''docs/a-b.md'' \<noteq> ''docs/a/b.md''"
    by simp
  from same diff have ninj: "\<not> inj convertPathToWikiName"
    by (auto simp: inj_def)
  define R where "R = build_repoFileMap repoFiles"
  define W where "W = build_wikiFileMap wikiFiles"
  define p0 where "p0 = repo_to_wiki_changes W R"
  define p1 where "p1 = wiki_to_repo_changes rt config e R W"
  define p2 where "p2 = (if syncDeletes config \<noteq> Some False then delete_changes R W else [])"
  have kR: "fst ` set R = (\<lambda>f. convertPathToWikiName (relative_or_path f)) ` set repoFiles"
    unfolding R_def by (rule repoFileMap_keys)
  have kW: "fst ` set W = wp_name ` set wikiFiles" unfolding W_def by (rule wikiFileMap_keys)
  have d: "detect rt config e repoFiles wikiFiles = p0 @ p1 @ p2"
    by (simp add: detect_def Let_def R_def W_def p0_def p1_def p2_def)
  have a0: "list_all (\<lambda>c. is_repo_create c \<or> is_repo_update c) p0"
    unfolding p0_def by (rule repo_to_wiki_phase)
  have a1: "list_all is_wiki_create p1" unfolding p1_def by (rule wiki_to_repo_phase)
  have a2: "list_all is_repo_delete p2" unfolding p2_def using delete_phase [of R W] by simp
  have "filter is_wiki_create p0 = []"
    using a0 by (rule filter_none) (auto simp: is_repo_create_def is_repo_update_def is_wiki_create_def)
  moreover have "filter is_wiki_create p1 = p1" using a1 by (rule filter_all)
  moreover have "filter is_wiki_create p2 = []" using a2 by (rule filter_none) (rule phases_exclusive)
  ultimately have f1: "filter is_wiki_create (p0 @ p1 @ p2) = p1" by simp
  have "{c \<in> set (detect rt config e repoFiles wikiFiles). is_wiki_create c}
          = set (filter is_wiki_create (p0 @ p1 @ p2))"
    unfolding d by auto
  then have "c_wikiName ` {c \<in> set (detect rt config e repoFiles wikiFiles). is_wiki_create c}
          = set (map c_wikiName p1)"
    unfolding f1 by simp
  also have "\<dots> = {n \<in> fst ` set W. n \<notin> fst ` set R \<and> \<not> rt_access rt (mapped_full_path rt config n) e}"
    unfolding p1_def wiki_to_repo_names by auto
  finally have guard: "\<forall>n. (n \<in> c_wikiName ` {c \<in> set (detect rt config e repoFiles wikiFiles). is_wiki_create c})
          = (n \<in> wp_name ` set wikiFiles
             \<and> n \<notin> (\<lambda>f. convertPathToWikiName (relative_or_path f)) ` set repoFiles
             \<and> \<not> rt_access rt (mapped_full_path rt config n) e)"
    unfolding kR kW by blast
  from same diff ninj guard show ?thesis by blast
qed

theorem wiki_create_guard_witness:
  "convertPathToWikiName (relative_or_path (repo_file ''x/y.md'' ''X'')) = ''x-y''
   \<and> mapped_full_path disk_runtime docs_config ''x--y'' = ''/work/docs/x/y.md''
   \<and> ''x--y'' \<notin> c_wikiName ` {c \<in> set (detect disk_runtime docs_config [''/work/docs/x/y.md'']
          [repo_file ''x/y.md'' ''X''] [wiki_page ''x--y'' ''P'']). is_wiki_create c}
   \<and> ''x--y'' \<in> c_wikiName ` {c \<in> set (detect disk_runtime docs_config []
          [repo_file ''x/y.md'' ''X''] [wiki_page ''x--y'' ''P'']). is_wiki_create c}"
proof -
  have n: "convertPathToWikiName (relative_or_path (repo_file ''x/y.md'' ''X'')) = ''x-y''"
    by code_simp
  have m: "mapped_full_path disk_runtime docs_config ''x--y'' = ''/work/docs/x/y.md''"
    by code_simp
  have w: "''x--y'' \<in> wp_name ` set [wiki_page ''x--y'' ''P'']"
    by (simp add: wiki_page_def)
  have r: "''x--y'' \<notin> (\<lambda>f. convertPathToWikiName (relative_or_path f)) ` set [repo_file ''x/y.md'' ''X'']"
    using n by simp
  have on_disk: "rt_access disk_runtime ''/work/docs/x/y.md'' [''/work/docs/x/y.md'']"
    and off_disk: "\<not> rt_access disk_runtime ''/work/docs/x/y.md'' []"
    by (simp_all add: disk_runtime_def)
  note G1 = wiki_create_guard [of disk_runtime docs_config "[''/work/docs/x/y.md'']"
      "[repo_file ''x/y.md'' ''X'']" "[wiki_page ''x--y'' ''P'']"]
  note G2 = wiki_create_guard [of disk_runtime docs_config "[]"
      "[repo_file ''x/y.md'' ''X'']" "[wiki_page ''x--y'' ''P'']"]
  from G1 on_disk m have 1: "''x--y'' \<notin> c_wikiName ` {c \<in> set (detect disk_runtime docs_config [''/work/docs/x/y.md'']
          [repo_file ''x/y.md'' ''X''] [wiki_page ''x--y'' ''P'']). is_wiki_create c}"
    by simp
  from G2 off_disk m w r have 2: "''x--y'' \<in> c_wikiName ` {c \<in> set (detect disk_runtime docs_config []
          [repo_file ''x/y.md'' ''X''] [wiki_page ''x--y'' ''P'']). is_wiki_create c}"
    by simp
  from n m 1 2 show ?thesis by blast
qed

theorem detect_phases_witness:
  "map loop_phase (detect disk_runtime docs_config []
        [repo_file ''a.md'' ''A'', repo_file ''b.md'' ''B''] [wiki_page ''a'' ''old'', wiki_page ''w'' ''W''])
     = [0, 0, 1, 2]
   \<and> sorted (map loop_phase (detect disk_runtime docs_config []
        [repo_file ''a.md'' ''A'', repo_file ''b.md'' ''B''] [wiki_page ''a'' ''old'', wiki_page ''w'' ''W'']))"
proof -
  have v: "map loop_phase (detect disk_runtime docs_config []
        [repo_file ''a.md'' ''A'', repo_file ''b.md'' ''B''] [wiki_page ''a'' ''old'', wiki_page ''w'' ''W''])
     = [0, 0, 1, 2]"
    by code_simp
  from detect_phases [of disk_runtime docs_config "[]"
        "[repo_file ''a.md'' ''A'', repo_file ''b.md'' ''B'']" "[wiki_page ''a'' ''old'', wiki_page ''w'' ''W'']"]
     v show ?thesis by blast
qed

section \<open>Properties of the transaction manager\<close>

text \<open>
  C2 (as amended).  \<open>beginTransaction\<close> never fails: whether or not a transaction is
  open it returns the id it draws from \<open>crypto.randomUUID\<close> and leaves the manager with
  one transaction, the new one, with that id, no operations, no checkpoints and status
  Pending.  The manager holds at most one transaction at any time; one that was open is
  discarded.
\<close>

theorem beginTransaction_replaces:
  "fst (beginTransaction rt tm p) = Inr (fst (rt_randomUUID rt (env p)))
   \<and> transaction (fst (snd (beginTransaction rt tm p)))
       = Some \<lparr> tx_id = fst (rt_randomUUID rt (env p)), operations = [],
                 status = Pending, tx_checkpoints = [] \<rparr>
   \<and> isInTransaction (fst (snd (beginTransaction rt tm p)))
   \<and> checkpoints (fst (snd (beginTransaction rt tm p))) = checkpoints tm
   \<and> env (snd (snd (beginTransaction rt tm p))) = snd (rt_randomUUID rt (env p))"
  by (simp add: beginTransaction_def Let_def isInTransaction_def emit_def split: prod.splits)

text \<open>
  C2 as stated fails: on a manager with an open transaction \<open>beginTransaction\<close> returns
  a new id instead of an error, and the open transaction with its recorded operation is
  gone.
\<close>

theorem beginTransaction_counterexample:
  "isInTransaction tm_open
   \<and> fst (beginTransaction clock_runtime tm_open (at_time 8)) = Inr ''uuid-8''
   \<and> \<not> isl (fst (beginTransaction clock_runtime tm_open (at_time 8)))
   \<and> transaction (fst (snd (beginTransaction clock_runtime tm_open (at_time 8))))
       = Some \<lparr> tx_id = ''uuid-8'', operations = [], status = Pending, tx_checkpoints = [] \<rparr>"
  by code_simp

subsection \<open>Rollback\<close>

lemma env_emit [simp]: "env (emit l m p) = env p"
  by (simp add: emit_def)

lemma console_emit [simp]: "console (emit l m p) = console p @ [(l, m)]"
  by (simp add: emit_def)

lemma env_call: "env (snd (call f p)) = snd (f (env p))" "fst (call f p) = fst (f (env p))"
  by (simp_all add: call_def split: prod.splits)

lemma call_eq: "f (env p) = (r, e) \<Longrightarrow> call f p = (r, p\<lparr> env := e \<rparr>)"
  by (simp add: call_def)

lemma restore_failed_env [simp]: "env (snd (restore_failed js file error p)) = env p"
  by (simp add: restore_failed_def split: sum.splits)


lemma restore_failed_reportable:
  "reportable js error \<Longrightarrow> fst (restore_failed js file error p) = Inr ()"
  by (cases "error_text js error") (simp_all add: restore_failed_def reportable_def)












text \<open>What \<open>rollback\<close> throws can be printed: it is an \<open>Error\<close> with a message.\<close>

lemma error_text_new_Error [simp]: "error_text js (new_Error msg) = Inr msg"
  by (simp add: error_text_def new_Error_def error_message_def has_prop_def get_prop_def
        js_ToString_def js_String_def completion_def)

lemma error_text_new_TypeError [simp]: "error_text js (new_TypeError msg) = Inr msg"
  by (simp add: error_text_def new_TypeError_def error_message_def has_prop_def get_prop_def
        js_ToString_def js_String_def completion_def)











section \<open>Properties of the synchronisation run\<close>


















text \<open>
  When \<open>logError\<close> throws in the \<open>catch\<close> block of \<open>sync\<close>, the block is left with what it
  threw: the result is not marked, no phase-level error is appended and no rollback is
  run.
\<close>

lemma sync_catch_logging_throws:
  "logError rt error (Some ''Sync operation'') (f_proc fr) = (Inl thrown, p1) \<Longrightarrow>
   sync_catch rt github error fr = (thrown, fr\<lparr> f_proc := p1 \<rparr>)"
  by (simp add: sync_catch_def)




text \<open>
  A run in which the \<open>catch\<close> block cannot report the error: the clone fails with an
  error that refers back to itself, \<open>JSON.stringify\<close> throws inside \<open>logError\<close>, and
  \<open>sync\<close> throws that \<open>TypeError\<close> in place of the error of the clone; no rollback was
  run, and the transaction is still open after the call.
\<close>

lemma sync_logging_throws_example:
  "fst (sync_try clock_runtime circular_clone_client empty_folder docs_config (enter new_engine))
     = Inl circular_error
   \<and> fst (sync clock_runtime circular_clone_client empty_folder docs_config new_engine)
     = Inl (new_TypeError ''Converting circular structure to JSON'')
   \<and> isInTransaction (e_tm (snd (sync clock_runtime circular_clone_client empty_folder docs_config new_engine)))
   \<and> \<not> isInTransaction (e_tm (snd (sync clock_runtime clone_fails_client empty_folder docs_config new_engine)))"
  by code_simp

end
